theory Spec2Isabelle
  imports Complex_Main
begin

section \<open>On-policy trajectory pipeline of rl-basics (PPO and A2C)\<close>

text \<open>
  Floating-point tensors are modelled over the reals: the development fixes the
  algorithmic semantics of the code, not its rounding. A tensor of shape
  \<open>[num_envs]\<close> is a list of reals (one entry per lane), a tensor of shape
  \<open>[num_steps, num_envs]\<close> is a list of such rows.
\<close>

type_synonym vec = "real list"
type_synonym table = "vec list"

subsection \<open>Elementwise tensor operations\<close>

text \<open>
  The operators \<open>+\<close>, \<open>-\<close>, \<open>*\<close> of numpy, jax.numpy and torch on two tensors of shape
  \<open>[num_envs]\<close>, and the product of a Python scalar with such a tensor. The source
  raises a broadcasting error on rows of different lengths; the statements below are
  about tables whose rows all have \<open>num_envs\<close> entries.
\<close>

definition vadd :: "vec \<Rightarrow> vec \<Rightarrow> vec" where
  "vadd xs ys = map2 (+) xs ys"

definition vsub :: "vec \<Rightarrow> vec \<Rightarrow> vec" where
  "vsub xs ys = map2 (-) xs ys"

definition vmul :: "vec \<Rightarrow> vec \<Rightarrow> vec" where
  "vmul xs ys = map2 (*) xs ys"

definition smul :: "real \<Rightarrow> vec \<Rightarrow> vec" where
  "smul c xs = map ((*) c) xs"

definition zeros :: "nat \<Rightarrow> vec" where
  "zeros num_envs = replicate num_envs 0"

definition zeros2 :: "nat \<Rightarrow> nat \<Rightarrow> table" where
  "zeros2 num_steps num_envs = replicate num_steps (zeros num_envs)"

definition well_shaped :: "nat \<Rightarrow> nat \<Rightarrow> 'a list list \<Rightarrow> bool" where
  "well_shaped num_steps num_envs tbl =
     (length tbl = num_steps \<and> list_all (\<lambda>row. length row = num_envs) tbl)"

subsection \<open>Advantage estimation, Flax variants (flax\_ppo\_atari.py, flax\_a2c\_atari.py)\<close>

text \<open>
  \<^verbatim>\<open>
  def compute_advantages(rewards, values, flags, last_value, gamma, gae, num_steps, num_envs):
      advantages = jnp.zeros((num_steps, num_envs))
      adv = jnp.zeros(num_envs)
      for i in reversed(range(num_steps)):
          returns = rewards[i] + gamma * flags[i] * last_value
          delta = returns - values[i]
          adv = delta + gamma * gae * flags[i] * adv
          advantages = advantages.at[i].set(adv)
          last_value = values[i]
      return advantages
  \<close>
  The loop state is \<open>(adv, last_value, advantages)\<close>; the counter \<open>Suc i\<close> of
  \<open>gae_loop\<close> means that index \<open>i\<close> is the next one visited, so the indices are
  visited from \<open>num_steps - 1\<close> down to \<open>0\<close>. The parameter \<open>values\<close> is written
  \<open>vals\<close>. The program calls the function on tables of \<open>num_steps\<close> rows, so every
  row index of the loop is inside the tables.
\<close>

fun gae_loop ::
  "table \<Rightarrow> table \<Rightarrow> table \<Rightarrow> real \<Rightarrow> real \<Rightarrow> nat \<Rightarrow> vec \<times> vec \<times> table \<Rightarrow> vec \<times> vec \<times> table"
where
  "gae_loop rewards vals flags gamma gae 0 st = st"
| "gae_loop rewards vals flags gamma gae (Suc i) (adv, last_value, advantages) =
     (let returns = vadd (rewards ! i) (vmul (smul gamma (flags ! i)) last_value);
          delta = vsub returns (vals ! i);
          adv' = vadd delta (vmul (smul (gamma * gae) (flags ! i)) adv)
      in gae_loop rewards vals flags gamma gae i (adv', vals ! i, advantages[i := adv']))"

definition compute_advantages ::
  "table \<Rightarrow> table \<Rightarrow> table \<Rightarrow> vec \<Rightarrow> real \<Rightarrow> real \<Rightarrow> nat \<Rightarrow> nat \<Rightarrow> table"
where
  "compute_advantages rewards vals flags last_value gamma gae num_steps num_envs =
     snd (snd (gae_loop rewards vals flags gamma gae num_steps
                 (zeros num_envs, last_value, zeros2 num_steps num_envs)))"

subsection \<open>Advantage estimation, PyTorch variant (ppo\_continuous.py, main)\<close>

text \<open>
  \<^verbatim>\<open>
  advantages = torch.zeros(rewards.size()).to(args.device)
  adv = torch.zeros(rewards.size(1)).to(args.device)
  for i in reversed(range(rewards.size(0))):
      terminal = 1. - flags[i]
      returns = rewards[i] + args.gamma * next_state_value * terminal
      delta = returns - state_values[i]
      adv = args.gamma * args.gae * adv * terminal + delta
      advantages[i] = adv
      next_state_value = state_values[i]
  \<close>
  \<open>rewards\<close> is allocated with shape \<open>(args.num_steps, args.num_envs)\<close>, so
  \<open>rewards.size(0)\<close> and \<open>rewards.size(1)\<close> are the two parameters \<open>num_steps\<close> and
  \<open>num_envs\<close>.
\<close>

fun pt_gae_loop ::
  "table \<Rightarrow> table \<Rightarrow> table \<Rightarrow> real \<Rightarrow> real \<Rightarrow> nat \<Rightarrow> vec \<times> vec \<times> table \<Rightarrow> vec \<times> vec \<times> table"
where
  "pt_gae_loop rewards state_values flags gamma gae 0 st = st"
| "pt_gae_loop rewards state_values flags gamma gae (Suc i) (adv, next_state_value, advantages) =
     (let terminal = map (\<lambda>f. 1 - f) (flags ! i);
          returns = vadd (rewards ! i) (vmul (smul gamma next_state_value) terminal);
          delta = vsub returns (state_values ! i);
          adv' = vadd (vmul (smul (gamma * gae) adv) terminal) delta
      in pt_gae_loop rewards state_values flags gamma gae i
           (adv', state_values ! i, advantages[i := adv']))"

definition pt_compute_advantages ::
  "table \<Rightarrow> table \<Rightarrow> table \<Rightarrow> vec \<Rightarrow> real \<Rightarrow> real \<Rightarrow> nat \<Rightarrow> nat \<Rightarrow> table"
where
  "pt_compute_advantages rewards state_values flags next_state_value gamma gae num_steps num_envs =
     snd (snd (pt_gae_loop rewards state_values flags gamma gae num_steps
                 (zeros num_envs, next_state_value, zeros2 num_steps num_envs)))"

text \<open>
  What the rollout stores as the flag of a lane, from the environment's
  \<open>terminated\<close> and \<open>truncated\<close> indicators: the Flax variants store
  \<open>1.0 - np.logical_or(terminated, truncated)\<close>, the PyTorch variant stores
  \<open>np.logical_or(terminated, truncated)\<close> converted to a float.
\<close>

definition flax_flag :: "bool \<Rightarrow> bool \<Rightarrow> real" where
  "flax_flag terminated truncated = 1 - of_bool (terminated \<or> truncated)"

definition pt_flag :: "bool \<Rightarrow> bool \<Rightarrow> real" where
  "pt_flag terminated truncated = of_bool (terminated \<or> truncated)"

definition flax_flags :: "bool list list \<Rightarrow> bool list list \<Rightarrow> table" where
  "flax_flags terminated truncated = map2 (map2 flax_flag) terminated truncated"

definition pt_flags :: "bool list list \<Rightarrow> bool list list \<Rightarrow> table" where
  "pt_flags terminated truncated = map2 (map2 pt_flag) terminated truncated"


text \<open>
  One pass of the loop body on row \<open>i\<close>, as a function of the bootstrap value and the
  running advantage it is entered with.
\<close>

definition gae_step ::
  "table \<Rightarrow> table \<Rightarrow> table \<Rightarrow> real \<Rightarrow> real \<Rightarrow> nat \<Rightarrow> vec \<Rightarrow> vec \<Rightarrow> vec"
where
  "gae_step rewards vals flags gamma gae i last_value adv =
     vadd (vsub (vadd (rewards ! i) (vmul (smul gamma (flags ! i)) last_value)) (vals ! i))
          (vmul (smul (gamma * gae) (flags ! i)) adv)"

text \<open>The value estimate of the step after \<open>t\<close>: the next row, or the bootstrap value
  after the last row.\<close>

definition next_value :: "table \<Rightarrow> vec \<Rightarrow> nat \<Rightarrow> nat \<Rightarrow> vec" where
  "next_value vals last_value num_steps t =
     (if Suc t < num_steps then vals ! Suc t else last_value)"

text \<open>\<^verbatim>\<open>td_target = advantages + values\<close> on two tables of the same shape. The PyTorch
  variant's \<^verbatim>\<open>(advantages + state_values).squeeze()\<close> has the same entries: squeeze
  only drops axes of size one.\<close>

definition td_target :: "table \<Rightarrow> table \<Rightarrow> table" where
  "td_target advantages vals = map2 vadd advantages vals"

section \<open>Rollout buffer (flax\_ppo\_atari.py, flax\_a2c\_atari.py)\<close>

text \<open>The exceptions the modelled Python code can raise.\<close>

datatype py_error =
  IndexError | ValueError | ZeroDivisionError | UnboundLocalError | TypeError | RuntimeError

text \<open>Sequencing of statements that can raise: the first exception ends the run.\<close>

definition bind_err :: "'e + 'a \<Rightarrow> ('a \<Rightarrow> 'e + 'b) \<Rightarrow> 'e + 'b" where
  "bind_err m f = (case m of Inl e \<Rightarrow> Inl e | Inr x \<Rightarrow> f x)"

text \<open>
  \<^verbatim>\<open>arr[i] = row\<close> on a numpy array of shape \<open>[num_steps, num_envs]\<close>: an index past
  the end raises IndexError; a row of the array's width is stored as it is, a row of
  one entry is broadcast to the width, any other row raises ValueError. The index is
  never negative here.
\<close>

definition assign_row :: "'a list list \<Rightarrow> nat \<Rightarrow> 'a list \<Rightarrow> py_error + 'a list list" where
  "assign_row arr i row =
     (if length arr \<le> i then Inl IndexError
      else if length row = length (arr ! i) then Inr (arr[i := row])
      else if length row = 1 then Inr (arr[i := replicate (length (arr ! i)) (hd row)])
      else Inl ValueError)"

text \<open>
  \<^verbatim>\<open>
  class RolloutBuffer:
      def __init__(self, num_steps, num_envs, observation_shape):
          self.states = np.zeros((num_steps, num_envs, *observation_shape), dtype=np.float32)
          self.actions = np.zeros((num_steps, num_envs), dtype=np.int64)
          self.rewards = np.zeros((num_steps, num_envs), dtype=np.float32)
          self.flags = np.zeros((num_steps, num_envs), dtype=np.float32)
          self.log_probs = np.zeros((num_steps, num_envs), dtype=np.float32)
          self.values = np.zeros((num_steps, num_envs), dtype=np.float32)
          self.step = 0
          self.num_steps = num_steps

      def push(self, state, action, reward, flag, log_prob, value):
          self.states[self.step] = state
          self.actions[self.step] = action
          self.rewards[self.step] = reward
          self.flags[self.step] = flag
          self.log_probs[self.step] = log_prob
          self.values[self.step] = value
          self.step = (self.step + 1) % self.num_steps

      def get(self):
          return (self.states, self.actions, self.rewards, self.flags, self.log_probs, self.values)
  \<close>
  The fields carry the prefix \<open>rb_\<close>, and the last parameter of \<open>push\<close> is written
  \<open>val\<close>. The observation of one lane is a value of a type
  \<open>'s\<close> with a zero (the tensor of shape \<open>observation_shape\<close>); an action is an integer.
\<close>

record 's rollout_buffer =
  rb_states :: "'s list list"
  rb_actions :: "int list list"
  rb_rewards :: table
  rb_flags :: table
  rb_log_probs :: table
  rb_values :: table
  rb_step :: nat
  rb_num_steps :: nat

definition RolloutBuffer :: "nat \<Rightarrow> nat \<Rightarrow> ('s::zero) rollout_buffer" where
  "RolloutBuffer num_steps num_envs =
     \<lparr>rb_states = replicate num_steps (replicate num_envs 0),
      rb_actions = replicate num_steps (replicate num_envs 0),
      rb_rewards = zeros2 num_steps num_envs,
      rb_flags = zeros2 num_steps num_envs,
      rb_log_probs = zeros2 num_steps num_envs,
      rb_values = zeros2 num_steps num_envs,
      rb_step = 0,
      rb_num_steps = num_steps\<rparr>"

definition push ::
  "'s rollout_buffer \<Rightarrow> 's list \<Rightarrow> int list \<Rightarrow> vec \<Rightarrow> vec \<Rightarrow> vec \<Rightarrow> vec
     \<Rightarrow> py_error + 's rollout_buffer"
where
  "push b state action reward flag log_prob val =
     bind_err (assign_row (rb_states b) (rb_step b) state) (\<lambda>states'.
     bind_err (assign_row (rb_actions b) (rb_step b) action) (\<lambda>actions'.
     bind_err (assign_row (rb_rewards b) (rb_step b) reward) (\<lambda>rewards'.
     bind_err (assign_row (rb_flags b) (rb_step b) flag) (\<lambda>flags'.
     bind_err (assign_row (rb_log_probs b) (rb_step b) log_prob) (\<lambda>log_probs'.
     bind_err (assign_row (rb_values b) (rb_step b) val) (\<lambda>values'.
       if rb_num_steps b = 0 then Inl ZeroDivisionError
       else Inr (b\<lparr>rb_states := states', rb_actions := actions', rb_rewards := rewards',
                   rb_flags := flags', rb_log_probs := log_probs', rb_values := values',
                   rb_step := (rb_step b + 1) mod rb_num_steps b\<rparr>)))))))"

definition get ::
  "'s rollout_buffer \<Rightarrow> 's list list \<times> int list list \<times> table \<times> table \<times> table \<times> table"
where
  "get b = (rb_states b, rb_actions b, rb_rewards b, rb_flags b, rb_log_probs b, rb_values b)"

text \<open>The arguments of one call of \<open>push\<close>, and a sequence of calls; an exception ends
  the sequence.\<close>

record 's transition =
  tr_state :: "'s list"
  tr_action :: "int list"
  tr_reward :: vec
  tr_flag :: vec
  tr_log_prob :: vec
  tr_value :: vec

fun pushes :: "'s rollout_buffer \<Rightarrow> 's transition list \<Rightarrow> py_error + 's rollout_buffer" where
  "pushes b [] = Inr b"
| "pushes b (x # xs) =
     bind_err
       (push b (tr_state x) (tr_action x) (tr_reward x) (tr_flag x) (tr_log_prob x) (tr_value x))
       (\<lambda>b'. pushes b' xs)"

definition transition_shaped :: "nat \<Rightarrow> 's transition \<Rightarrow> bool" where
  "transition_shaped num_envs x =
     (length (tr_state x) = num_envs \<and> length (tr_action x) = num_envs \<and>
      length (tr_reward x) = num_envs \<and> length (tr_flag x) = num_envs \<and>
      length (tr_log_prob x) = num_envs \<and> length (tr_value x) = num_envs)"

text \<open>The buffer of the A2C variant: the same class without the field \<open>log_probs\<close>.\<close>

record 's a2c_rollout_buffer =
  a2c_states :: "'s list list"
  a2c_actions :: "int list list"
  a2c_rewards :: table
  a2c_flags :: table
  a2c_values :: table
  a2c_step :: nat
  a2c_num_steps :: nat

definition A2C_RolloutBuffer :: "nat \<Rightarrow> nat \<Rightarrow> ('s::zero) a2c_rollout_buffer" where
  "A2C_RolloutBuffer num_steps num_envs =
     \<lparr>a2c_states = replicate num_steps (replicate num_envs 0),
      a2c_actions = replicate num_steps (replicate num_envs 0),
      a2c_rewards = zeros2 num_steps num_envs,
      a2c_flags = zeros2 num_steps num_envs,
      a2c_values = zeros2 num_steps num_envs,
      a2c_step = 0,
      a2c_num_steps = num_steps\<rparr>"

definition a2c_push ::
  "'s a2c_rollout_buffer \<Rightarrow> 's list \<Rightarrow> int list \<Rightarrow> vec \<Rightarrow> vec \<Rightarrow> vec
     \<Rightarrow> py_error + 's a2c_rollout_buffer"
where
  "a2c_push b state action reward flag val =
     bind_err (assign_row (a2c_states b) (a2c_step b) state) (\<lambda>states'.
     bind_err (assign_row (a2c_actions b) (a2c_step b) action) (\<lambda>actions'.
     bind_err (assign_row (a2c_rewards b) (a2c_step b) reward) (\<lambda>rewards'.
     bind_err (assign_row (a2c_flags b) (a2c_step b) flag) (\<lambda>flags'.
     bind_err (assign_row (a2c_values b) (a2c_step b) val) (\<lambda>values'.
       if a2c_num_steps b = 0 then Inl ZeroDivisionError
       else Inr (b\<lparr>a2c_states := states', a2c_actions := actions', a2c_rewards := rewards',
                   a2c_flags := flags', a2c_values := values',
                   a2c_step := (a2c_step b + 1) mod a2c_num_steps b\<rparr>))))))"

definition a2c_get ::
  "'s a2c_rollout_buffer \<Rightarrow> 's list list \<times> int list list \<times> table \<times> table \<times> table"
where
  "a2c_get b = (a2c_states b, a2c_actions b, a2c_rewards b, a2c_flags b, a2c_values b)"

fun a2c_pushes ::
  "'s a2c_rollout_buffer \<Rightarrow> 's transition list \<Rightarrow> py_error + 's a2c_rollout_buffer" where
  "a2c_pushes b [] = Inr b"
| "a2c_pushes b (x # xs) =
     bind_err
       (a2c_push b (tr_state x) (tr_action x) (tr_reward x) (tr_flag x) (tr_value x))
       (\<lambda>b'. a2c_pushes b' xs)"

text \<open>The state of a buffer between two calls: the cursor is inside the arrays, and
  every array has \<open>num_steps\<close> rows of \<open>num_envs\<close> entries.\<close>

definition buffer_inv :: "nat \<Rightarrow> 's rollout_buffer \<Rightarrow> bool" where
  "buffer_inv num_envs b =
     (rb_step b < rb_num_steps b \<and>
      well_shaped (rb_num_steps b) num_envs (rb_states b) \<and>
      well_shaped (rb_num_steps b) num_envs (rb_actions b) \<and>
      well_shaped (rb_num_steps b) num_envs (rb_rewards b) \<and>
      well_shaped (rb_num_steps b) num_envs (rb_flags b) \<and>
      well_shaped (rb_num_steps b) num_envs (rb_log_probs b) \<and>
      well_shaped (rb_num_steps b) num_envs (rb_values b))"

definition a2c_transition_shaped :: "nat \<Rightarrow> 's transition \<Rightarrow> bool" where
  "a2c_transition_shaped num_envs x =
     (length (tr_state x) = num_envs \<and> length (tr_action x) = num_envs \<and>
      length (tr_reward x) = num_envs \<and> length (tr_flag x) = num_envs \<and>
      length (tr_value x) = num_envs)"

definition a2c_buffer_inv :: "nat \<Rightarrow> 's a2c_rollout_buffer \<Rightarrow> bool" where
  "a2c_buffer_inv num_envs b =
     (a2c_step b < a2c_num_steps b \<and>
      well_shaped (a2c_num_steps b) num_envs (a2c_states b) \<and>
      well_shaped (a2c_num_steps b) num_envs (a2c_actions b) \<and>
      well_shaped (a2c_num_steps b) num_envs (a2c_rewards b) \<and>
      well_shaped (a2c_num_steps b) num_envs (a2c_flags b) \<and>
      well_shaped (a2c_num_steps b) num_envs (a2c_values b))"

text \<open>Two transitions of a single-lane rollout, used as a concrete run below.\<close>

definition t1 :: "nat transition" where
  "t1 = \<lparr>tr_state = [7], tr_action = [1], tr_reward = [1], tr_flag = [1],
          tr_log_prob = [-1], tr_value = [2]\<rparr>"

definition t2 :: "nat transition" where
  "t2 = \<lparr>tr_state = [8], tr_action = [0], tr_reward = [0], tr_flag = [0],
          tr_log_prob = [-2], tr_value = [3]\<rparr>"

section \<open>Advantage normalisation, learning-rate schedule and diagnostics\<close>

text \<open>
  \<open>x.mean()\<close> and \<open>x.std()\<close> over all entries of a tensor. The standard deviation of
  numpy and jax.numpy divides by the number of entries; the one of torch divides by
  that number minus one (Bessel's correction). On an empty tensor (and, for torch, on
  a single entry) the source yields NaN; the statements below are about batches with
  a non-zero standard deviation, which have at least two entries.
\<close>

definition mean :: "vec \<Rightarrow> real" where
  "mean xs = sum_list xs / real (length xs)"

definition std :: "vec \<Rightarrow> real" where
  "std xs = sqrt (mean (map (\<lambda>x. (x - mean xs)\<^sup>2) xs))"

definition torch_std :: "vec \<Rightarrow> real" where
  "torch_std xs = sqrt (sum_list (map (\<lambda>x. (x - mean xs)\<^sup>2) xs) / (real (length xs) - 1))"

text \<open>
  Flax variants: \<^verbatim>\<open>advantages = (advantages - advantages.mean()) / (advantages.std() + 1e-8)\<close>;
  PyTorch variant: \<^verbatim>\<open>advantages = (advantages - advantages.mean()) / (advantages.std() + 1e-7)\<close>.
  Both are functions of the advantage table of the current iteration alone.
\<close>

definition flax_normalize :: "table \<Rightarrow> table" where
  "flax_normalize advantages =
     map (map (\<lambda>a. (a - mean (concat advantages)) / (std (concat advantages) + 1 / 10 ^ 8)))
       advantages"

definition pt_normalize :: "table \<Rightarrow> table" where
  "pt_normalize advantages =
     map (map (\<lambda>a. (a - mean (concat advantages)) / (torch_std (concat advantages) + 1 / 10 ^ 7)))
       advantages"

text \<open>
  Learning-rate annealing of ppo\_continuous.py, with \<open>update\<close> running over
  \<open>range(args.num_updates)\<close>:
  \<^verbatim>\<open>
  frac = 1. - (update - 1.) / args.num_updates
  new_lr = frac * args.learning_rate
  agent.optimizer.param_groups[0]["lr"] = new_lr
  \<close>
\<close>

definition anneal_lr :: "nat \<Rightarrow> nat \<Rightarrow> real \<Rightarrow> real" where
  "anneal_lr update num_updates learning_rate =
     (let frac = 1 - (real update - 1) / real num_updates;
          new_lr = frac * learning_rate
      in new_lr)"

text \<open>The schedule in the words of the specification:
  \<open>lr(update_index) = base_lr * (1 - update_index / num_updates)\<close>.\<close>

definition lr_spec :: "real \<Rightarrow> nat \<Rightarrow> nat \<Rightarrow> real" where
  "lr_spec base_lr update_index num_updates =
     base_lr * (1 - real update_index / real num_updates)"

text \<open>
  The clip-fraction diagnostic of one minibatch in ppo\_continuous.py:
  \<^verbatim>\<open>clipfracs += [((ratios - 1.).abs() > 0.2).float().mean().item()]\<close>
  It does not read \<open>args.eps_clip\<close>.
\<close>

definition clipfrac :: "vec \<Rightarrow> real" where
  "clipfrac ratios = mean (map (\<lambda>r. of_bool (\<bar>r - 1\<bar> > 0.2)) ratios)"

text \<open>The diagnostic in the words of the specification: the fraction of the minibatch
  entries with \<open>|ratio - 1| > eps\<close>.\<close>

definition clip_fraction_spec :: "real \<Rightarrow> vec \<Rightarrow> real" where
  "clip_fraction_spec eps ratios =
     real (length (filter (\<lambda>r. \<bar>r - 1\<bar> > eps) ratios)) / real (length ratios)"

section \<open>Rollout phase\<close>

text \<open>
  The rollout loop of the Flax PPO variant (flax\_ppo\_atari.py, train):
  \<^verbatim>\<open>
  for _ in range(args.num_steps):
      global_step += 1 * args.num_envs
      action, log_prob, value, key = policy_predict(train_state.apply_fn, train_state.params, state, key)
      next_state, reward, terminated, truncated, infos = envs.step(jax.device_get(action))
      flag = 1.0 - np.logical_or(terminated, truncated)
      rollout_buffer.push(state, action, reward, flag, log_prob, value)
      state = next_state
      ...   # episode statistics are written to the metrics sink
  \<close>
  The policy and the vectorised environment are collaborators, taken as parameters:
  \<open>predict\<close> maps the observations and the random key to the actions, log
  probabilities, values and the next key (the parameters are fixed during a rollout);
  \<open>env_step\<close> maps the environment and the actions to the next environment, the next
  observations, the rewards and the two indicator rows. The logging at the end of the
  loop body reads \<open>global_step\<close> and changes none of the variables below. The
  variables \<open>state\<close> and \<open>key\<close> are the fields \<open>cur_state\<close> and \<open>rng_key\<close>.
\<close>

record ('s, 'k, 'e) rollout_state =
  global_step :: nat
  cur_state :: "'s list"
  rng_key :: 'k
  envs :: 'e
  buffer :: "'s rollout_buffer"

definition flax_rollout_step ::
  "('s list \<Rightarrow> 'k \<Rightarrow> int list \<times> vec \<times> vec \<times> 'k) \<Rightarrow>
   ('e \<Rightarrow> int list \<Rightarrow> 'e \<times> 's list \<times> vec \<times> bool list \<times> bool list) \<Rightarrow>
   nat \<Rightarrow> ('s, 'k, 'e) rollout_state \<Rightarrow> py_error + ('s, 'k, 'e) rollout_state"
where
  "flax_rollout_step predict env_step num_envs st =
     (let global_step' = global_step st + 1 * num_envs in
      case predict (cur_state st) (rng_key st) of (action, log_prob, val, key') \<Rightarrow>
      case env_step (envs st) action of (envs', next_state, reward, terminated, truncated) \<Rightarrow>
      let flag = map2 flax_flag terminated truncated in
      bind_err (push (buffer st) (cur_state st) action reward flag log_prob val) (\<lambda>b.
        Inr \<lparr>global_step = global_step', cur_state = next_state, rng_key = key',
             envs = envs', buffer = b\<rparr>))"

fun flax_rollout ::
  "('s list \<Rightarrow> 'k \<Rightarrow> int list \<times> vec \<times> vec \<times> 'k) \<Rightarrow>
   ('e \<Rightarrow> int list \<Rightarrow> 'e \<times> 's list \<times> vec \<times> bool list \<times> bool list) \<Rightarrow>
   nat \<Rightarrow> nat \<Rightarrow> ('s, 'k, 'e) rollout_state \<Rightarrow> py_error + ('s, 'k, 'e) rollout_state"
where
  "flax_rollout predict env_step num_envs 0 st = Inr st"
| "flax_rollout predict env_step num_envs (Suc num_steps) st =
     bind_err (flax_rollout_step predict env_step num_envs st)
       (flax_rollout predict env_step num_envs num_steps)"

text \<open>The rollout loop of the A2C variant (flax\_a2c\_atari.py, train): the same loop
  without log probabilities.\<close>

record ('s, 'k, 'e) a2c_rollout_state =
  a2c_global_step :: nat
  a2c_cur_state :: "'s list"
  a2c_rng_key :: 'k
  a2c_envs :: 'e
  a2c_buffer :: "'s a2c_rollout_buffer"

definition a2c_rollout_step ::
  "('s list \<Rightarrow> 'k \<Rightarrow> int list \<times> vec \<times> 'k) \<Rightarrow>
   ('e \<Rightarrow> int list \<Rightarrow> 'e \<times> 's list \<times> vec \<times> bool list \<times> bool list) \<Rightarrow>
   nat \<Rightarrow> ('s, 'k, 'e) a2c_rollout_state \<Rightarrow> py_error + ('s, 'k, 'e) a2c_rollout_state"
where
  "a2c_rollout_step predict env_step num_envs st =
     (let global_step' = a2c_global_step st + 1 * num_envs in
      case predict (a2c_cur_state st) (a2c_rng_key st) of (action, val, key') \<Rightarrow>
      case env_step (a2c_envs st) action of (envs', next_state, reward, terminated, truncated) \<Rightarrow>
      let flag = map2 flax_flag terminated truncated in
      bind_err (a2c_push (a2c_buffer st) (a2c_cur_state st) action reward flag val) (\<lambda>b.
        Inr \<lparr>a2c_global_step = global_step', a2c_cur_state = next_state, a2c_rng_key = key',
             a2c_envs = envs', a2c_buffer = b\<rparr>))"

fun a2c_rollout ::
  "('s list \<Rightarrow> 'k \<Rightarrow> int list \<times> vec \<times> 'k) \<Rightarrow>
   ('e \<Rightarrow> int list \<Rightarrow> 'e \<times> 's list \<times> vec \<times> bool list \<times> bool list) \<Rightarrow>
   nat \<Rightarrow> nat \<Rightarrow> ('s, 'k, 'e) a2c_rollout_state \<Rightarrow> py_error + ('s, 'k, 'e) a2c_rollout_state"
where
  "a2c_rollout predict env_step num_envs 0 st = Inr st"
| "a2c_rollout predict env_step num_envs (Suc num_steps) st =
     bind_err (a2c_rollout_step predict env_step num_envs st)
       (a2c_rollout predict env_step num_envs num_steps)"

text \<open>
  The rollout loop of the PyTorch variant (ppo\_continuous.py, main), which writes its
  tables directly:
  \<^verbatim>\<open>
  for i in range(args.num_steps):
      global_step += 1
      with torch.no_grad():
          state_torch = torch.from_numpy(state).to(args.device).float()
          action, log_prob, state_value, _ = agent.get_action_value(state_torch)
      next_state, reward, terminated, truncated, infos = envs.step(action)
      states[i] = state_torch
      actions[i] = torch.from_numpy(action).to(args.device)
      rewards[i] = torch.from_numpy(reward).to(args.device)
      log_probs[i] = log_prob
      state_values[i] = state_value
      done = np.logical_or(terminated, truncated)
      flags[i] = torch.from_numpy(done).to(args.device)
      state = next_state
      ...   # episode statistics are written to the metrics sink
  \<close>
  The number of lanes does not occur in the loop: it is the width of the tables, which
  are allocated with shape \<open>(args.num_steps, args.num_envs)\<close>. An action of one lane is a
  value of a type \<open>'a\<close>; \<open>pt_rng\<close> is the state of torch's random generator, from which
  the action is sampled. The fields carry the prefix \<open>pt_\<close>; the table \<open>flags\<close> is
  the field \<open>pt_flag_table\<close>. A row assignment on a torch tensor raises RuntimeError
  on a row that cannot be broadcast.
\<close>

definition torch_assign_row :: "'a list list \<Rightarrow> nat \<Rightarrow> 'a list \<Rightarrow> py_error + 'a list list" where
  "torch_assign_row arr i row =
     (if length arr \<le> i then Inl IndexError
      else if length row = length (arr ! i) then Inr (arr[i := row])
      else if length row = 1 then Inr (arr[i := replicate (length (arr ! i)) (hd row)])
      else Inl RuntimeError)"

record ('s, 'a, 'k, 'e) pt_rollout_state =
  pt_global_step :: nat
  pt_state :: "'s list"
  pt_rng :: 'k
  pt_envs :: 'e
  pt_states :: "'s list list"
  pt_actions :: "'a list list"
  pt_rewards :: table
  pt_flag_table :: table
  pt_log_probs :: table
  pt_state_values :: table

definition pt_rollout_step ::
  "('s list \<Rightarrow> 'k \<Rightarrow> 'a list \<times> vec \<times> vec \<times> 'k) \<Rightarrow>
   ('e \<Rightarrow> 'a list \<Rightarrow> 'e \<times> 's list \<times> vec \<times> bool list \<times> bool list) \<Rightarrow>
   nat \<Rightarrow> ('s, 'a, 'k, 'e) pt_rollout_state \<Rightarrow> py_error + ('s, 'a, 'k, 'e) pt_rollout_state"
where
  "pt_rollout_step get_action_value env_step i st =
     (let global_step' = pt_global_step st + 1 in
      case get_action_value (pt_state st) (pt_rng st) of (action, log_prob, state_value, rng') \<Rightarrow>
      case env_step (pt_envs st) action of (envs', next_state, reward, terminated, truncated) \<Rightarrow>
      bind_err (torch_assign_row (pt_states st) i (pt_state st)) (\<lambda>states'.
      bind_err (torch_assign_row (pt_actions st) i action) (\<lambda>actions'.
      bind_err (torch_assign_row (pt_rewards st) i reward) (\<lambda>rewards'.
      bind_err (torch_assign_row (pt_log_probs st) i log_prob) (\<lambda>log_probs'.
      bind_err (torch_assign_row (pt_state_values st) i state_value) (\<lambda>state_values'.
      let done = map2 pt_flag terminated truncated in
      bind_err (torch_assign_row (pt_flag_table st) i done) (\<lambda>flags'.
        Inr \<lparr>pt_global_step = global_step', pt_state = next_state, pt_rng = rng',
             pt_envs = envs', pt_states = states', pt_actions = actions',
             pt_rewards = rewards', pt_flag_table = flags', pt_log_probs = log_probs',
             pt_state_values = state_values'\<rparr>)))))))"

fun pt_rollout_from ::
  "('s list \<Rightarrow> 'k \<Rightarrow> 'a list \<times> vec \<times> vec \<times> 'k) \<Rightarrow>
   ('e \<Rightarrow> 'a list \<Rightarrow> 'e \<times> 's list \<times> vec \<times> bool list \<times> bool list) \<Rightarrow>
   nat list \<Rightarrow> ('s, 'a, 'k, 'e) pt_rollout_state \<Rightarrow> py_error + ('s, 'a, 'k, 'e) pt_rollout_state"
where
  "pt_rollout_from get_action_value env_step [] st = Inr st"
| "pt_rollout_from get_action_value env_step (i # is) st =
     bind_err (pt_rollout_step get_action_value env_step i st)
       (pt_rollout_from get_action_value env_step is)"

definition pt_rollout ::
  "('s list \<Rightarrow> 'k \<Rightarrow> 'a list \<times> vec \<times> vec \<times> 'k) \<Rightarrow>
   ('e \<Rightarrow> 'a list \<Rightarrow> 'e \<times> 's list \<times> vec \<times> bool list \<times> bool list) \<Rightarrow>
   nat \<Rightarrow> ('s, 'a, 'k, 'e) pt_rollout_state \<Rightarrow> py_error + ('s, 'a, 'k, 'e) pt_rollout_state"
where
  "pt_rollout get_action_value env_step num_steps st =
     pt_rollout_from get_action_value env_step [0..<num_steps] st"

text \<open>A concrete run with two lanes: a policy that always answers with zeros and an
  environment that pays reward 1 and never ends an episode.\<close>

definition ex_predict :: "nat list \<Rightarrow> unit \<Rightarrow> int list \<times> vec \<times> vec \<times> unit" where
  "ex_predict s k = ([0, 0], [0, 0], [0, 0], ())"

definition ex_a2c_predict :: "nat list \<Rightarrow> unit \<Rightarrow> int list \<times> vec \<times> unit" where
  "ex_a2c_predict s k = ([0, 0], [0, 0], ())"

definition ex_env_step ::
  "unit \<Rightarrow> int list \<Rightarrow> unit \<times> nat list \<times> vec \<times> bool list \<times> bool list" where
  "ex_env_step e a = ((), [5, 6], [1, 1], [False, False], [False, False])"

definition ex_rollout_state :: "(nat, unit, unit) rollout_state" where
  "ex_rollout_state =
     \<lparr>global_step = 0, cur_state = [3, 4], rng_key = (), envs = (),
      buffer = RolloutBuffer 2 2\<rparr>"

definition ex_a2c_rollout_state :: "(nat, unit, unit) a2c_rollout_state" where
  "ex_a2c_rollout_state =
     \<lparr>a2c_global_step = 0, a2c_cur_state = [3, 4], a2c_rng_key = (), a2c_envs = (),
      a2c_buffer = A2C_RolloutBuffer 2 2\<rparr>"

definition ex_pt_rollout_state :: "(nat, int, unit, unit) pt_rollout_state" where
  "ex_pt_rollout_state =
     \<lparr>pt_global_step = 0, pt_state = [3, 4], pt_rng = (), pt_envs = (),
      pt_states = [[0, 0], [0, 0]], pt_actions = [[0, 0], [0, 0]], pt_rewards = zeros2 2 2,
      pt_flag_table = zeros2 2 2, pt_log_probs = zeros2 2 2, pt_state_values = zeros2 2 2\<rparr>"

section \<open>PPO update step (flax\_ppo\_atari.py, train\_step)\<close>

text \<open>
  For the update the floats are the reals extended by one non-finite value, \<open>NaN\<close>,
  which every arithmetic operation, \<open>jnp.exp\<close>, \<open>jnp.minimum\<close>, \<open>jax.lax.clamp\<close> and
  \<open>mean\<close> propagate. The mean of an empty tensor is \<open>NaN\<close>. Infinities and rounding
  are not modelled.
\<close>

datatype fl = Fin real | NaN

fun fl1 :: "(real \<Rightarrow> real) \<Rightarrow> fl \<Rightarrow> fl" where
  "fl1 f (Fin x) = Fin (f x)"
| "fl1 f NaN = NaN"

fun fl2 :: "(real \<Rightarrow> real \<Rightarrow> real) \<Rightarrow> fl \<Rightarrow> fl \<Rightarrow> fl" where
  "fl2 f (Fin x) (Fin y) = Fin (f x y)"
| "fl2 f NaN y = NaN"
| "fl2 f (Fin x) NaN = NaN"

definition fmean :: "fl list \<Rightarrow> fl" where
  "fmean xs =
     (if xs = [] then NaN
      else fl2 (/) (foldr (fl2 (+)) xs (Fin 0)) (Fin (real (length xs))))"

text \<open>
  \<^verbatim>\<open>
  def loss_fn(params, batch):
      states, actions, old_log_probs, advantages, td_target = batch
      log_probs, entropy, td_predict = policy_evaluate(train_state.apply_fn, params, states, actions)
      ratios = jnp.exp(log_probs - old_log_probs)
      surr1 = advantages * ratios
      surr2 = advantages * jax.lax.clamp(1.0 - eps_clip, ratios, 1.0 + eps_clip)
      actor_loss = -jnp.minimum(surr1, surr2).mean()
      critic_loss = jnp.square(td_target - td_predict).mean()
      entropy_loss = entropy.mean()
      loss = actor_loss + critic_loss * value_coef - entropy_loss * entropy_coef
      return loss
  \<close>
  \<open>policy_evaluate\<close> (the network applied to the states, and the log probabilities and
  entropies of its distribution) is a collaborator, taken as a parameter.
  \<open>jax.lax.clamp(lo, x, hi)\<close> is \<open>min (max x lo) hi\<close>.
\<close>

type_synonym 's batch = "'s list \<times> int list \<times> fl list \<times> fl list \<times> fl list"

definition loss_fn ::
  "('p \<Rightarrow> 's list \<Rightarrow> int list \<Rightarrow> fl list \<times> fl list \<times> fl list) \<Rightarrow>
   real \<Rightarrow> real \<Rightarrow> real \<Rightarrow> 'p \<Rightarrow> 's batch \<Rightarrow> fl"
where
  "loss_fn policy_evaluate value_coef entropy_coef eps_clip params batch =
     (case batch of (states, actions, old_log_probs, advantages, td_targets) \<Rightarrow>
      case policy_evaluate params states actions of (log_probs, entropy, td_predict) \<Rightarrow>
      let ratios = map (fl1 exp) (map2 (fl2 (-)) log_probs old_log_probs);
          surr1 = map2 (fl2 (*)) advantages ratios;
          surr2 = map2 (fl2 (*)) advantages
                    (map (fl1 (\<lambda>r. min (max r (1 - eps_clip)) (1 + eps_clip))) ratios);
          actor_loss = fl1 uminus (fmean (map2 (fl2 min) surr1 surr2));
          critic_loss = fmean (map (fl1 (\<lambda>d. d\<^sup>2)) (map2 (fl2 (-)) td_targets td_predict));
          entropy_loss = fmean entropy;
          loss = fl2 (-) (fl2 (+) actor_loss (fl2 (*) critic_loss (Fin value_coef)))
                   (fl2 (*) entropy_loss (Fin entropy_coef))
      in loss)"

text \<open>
  \<^verbatim>\<open>x.reshape((num_minibatches, minibatch_size) + x.shape[1:])\<close> on a tensor with
  \<open>length xs\<close> leading entries: jax raises TypeError when the sizes do not match.
\<close>

definition reshape2 :: "nat \<Rightarrow> nat \<Rightarrow> 'a list \<Rightarrow> py_error + 'a list list" where
  "reshape2 num_minibatches minibatch_size xs =
     (if length xs = num_minibatches * minibatch_size
      then Inr (map (\<lambda>i. take minibatch_size (drop (i * minibatch_size) xs)) [0..<num_minibatches])
      else Inl TypeError)"

text \<open>\<^verbatim>\<open>zip(*trajectories)\<close>: the minibatches, one tuple of five rows each.\<close>

fun zip5 ::
  "'a list \<Rightarrow> 'b list \<Rightarrow> 'c list \<Rightarrow> 'd list \<Rightarrow> 'e list \<Rightarrow> ('a \<times> 'b \<times> 'c \<times> 'd \<times> 'e) list"
where
  "zip5 (a # as) (b # bs) (c # cs) (d # ds) (e # es) = (a, b, c, d, e) # zip5 as bs cs ds es"
| "zip5 _ _ _ _ _ = []"

text \<open>
  \<^verbatim>\<open>
  def train_step(train_state, trajectories, num_minibatches, minibatch_size, value_coef, entropy_coef, eps_clip):
      ...
      trajectories = jax.tree_util.tree_map(
          lambda x: x.reshape((num_minibatches, minibatch_size) + x.shape[1:]), trajectories)
      for batch in zip(*trajectories):
          grad_fn = jax.value_and_grad(loss_fn)
          loss, grads = grad_fn(train_state.params, batch)
          train_state = train_state.apply_gradients(grads=grads)
      return train_state, loss
  \<close>
  Automatic differentiation (\<open>grad\<close>, which maps a loss function and the parameters to
  the gradients) and the optimizer step of the library (\<open>apply_gradients\<close>) are
  collaborators, taken as parameters, like the train state itself with its projection
  \<open>params_of\<close>. The loop state is the train state and the variable \<open>loss\<close>, which is
  unbound before the first minibatch. The fifth component of a batch, \<open>td_target\<close> in
  the source, is written \<open>td_targets\<close>.
\<close>

fun train_loop ::
  "('p \<Rightarrow> 's list \<Rightarrow> int list \<Rightarrow> fl list \<times> fl list \<times> fl list) \<Rightarrow>
   (('p \<Rightarrow> fl) \<Rightarrow> 'p \<Rightarrow> 'g) \<Rightarrow> ('ts \<Rightarrow> 'g \<Rightarrow> 'ts) \<Rightarrow> ('ts \<Rightarrow> 'p) \<Rightarrow>
   real \<Rightarrow> real \<Rightarrow> real \<Rightarrow> 's batch list \<Rightarrow> 'ts \<times> fl option \<Rightarrow> 'ts \<times> fl option"
where
  "train_loop policy_evaluate grad apply_gradients params_of value_coef entropy_coef eps_clip
     [] st = st"
| "train_loop policy_evaluate grad apply_gradients params_of value_coef entropy_coef eps_clip
     (batch # batches) (train_state, loss) =
     (let f = (\<lambda>params. loss_fn policy_evaluate value_coef entropy_coef eps_clip params batch);
          loss' = f (params_of train_state);
          grads = grad f (params_of train_state);
          train_state' = apply_gradients train_state grads
      in train_loop policy_evaluate grad apply_gradients params_of value_coef entropy_coef
           eps_clip batches (train_state', Some loss'))"

definition train_step ::
  "('p \<Rightarrow> 's list \<Rightarrow> int list \<Rightarrow> fl list \<times> fl list \<times> fl list) \<Rightarrow>
   (('p \<Rightarrow> fl) \<Rightarrow> 'p \<Rightarrow> 'g) \<Rightarrow> ('ts \<Rightarrow> 'g \<Rightarrow> 'ts) \<Rightarrow> ('ts \<Rightarrow> 'p) \<Rightarrow>
   'ts \<Rightarrow> 's batch \<Rightarrow> nat \<Rightarrow> nat \<Rightarrow> real \<Rightarrow> real \<Rightarrow> real \<Rightarrow> py_error + 'ts \<times> fl"
where
  "train_step policy_evaluate grad apply_gradients params_of train_state trajectories
     num_minibatches minibatch_size value_coef entropy_coef eps_clip =
     (case trajectories of (states, actions, log_probs, advantages, td_targets) \<Rightarrow>
      bind_err (reshape2 num_minibatches minibatch_size states) (\<lambda>states'.
      bind_err (reshape2 num_minibatches minibatch_size actions) (\<lambda>actions'.
      bind_err (reshape2 num_minibatches minibatch_size log_probs) (\<lambda>log_probs'.
      bind_err (reshape2 num_minibatches minibatch_size advantages) (\<lambda>advantages'.
      bind_err (reshape2 num_minibatches minibatch_size td_targets) (\<lambda>td_targets'.
        case train_loop policy_evaluate grad apply_gradients params_of value_coef entropy_coef
               eps_clip (zip5 states' actions' log_probs' advantages' td_targets')
               (train_state, None)
        of (train_state', None) \<Rightarrow> Inl UnboundLocalError
         | (train_state', Some loss) \<Rightarrow> Inr (train_state', loss)))))))"

text \<open>
  A concrete policy with one weight \<open>w\<close>: every log probability is \<open>w\<close>, every entropy
  and value prediction is 0. Its stand-in for automatic differentiation gives a \<open>NaN\<close>
  gradient for a \<open>NaN\<close> loss; its train state is the number of optimizer steps taken
  and the weight, and an optimizer step subtracts the gradient from the weight.
\<close>

definition ex_policy_evaluate :: "fl \<Rightarrow> nat list \<Rightarrow> int list \<Rightarrow> fl list \<times> fl list \<times> fl list" where
  "ex_policy_evaluate w states actions =
     (map (\<lambda>_. w) states, map (\<lambda>_. Fin 0) states, map (\<lambda>_. Fin 0) states)"

definition ex_grad :: "(fl \<Rightarrow> fl) \<Rightarrow> fl \<Rightarrow> fl" where
  "ex_grad f w = (case f w of NaN \<Rightarrow> NaN | Fin _ \<Rightarrow> Fin 0)"

definition ex_apply_gradients :: "nat \<times> fl \<Rightarrow> fl \<Rightarrow> nat \<times> fl" where
  "ex_apply_gradients ts grads = (Suc (fst ts), fl2 (-) (snd ts) grads)"

section \<open>Properties of the advantage estimator\<close>

lemma well_shaped_nth:
  "well_shaped T N tbl \<Longrightarrow> t < T \<Longrightarrow> length (tbl ! t) = N"
  by (simp add: well_shaped_def list_all_length)

lemma well_shaped_length: "well_shaped T N tbl \<Longrightarrow> length tbl = T"
  by (simp add: well_shaped_def)

lemma vadd_nth: "n < length xs \<Longrightarrow> n < length ys \<Longrightarrow> vadd xs ys ! n = xs ! n + ys ! n"
  by (simp add: vadd_def)

lemma vsub_nth: "n < length xs \<Longrightarrow> n < length ys \<Longrightarrow> vsub xs ys ! n = xs ! n - ys ! n"
  by (simp add: vsub_def)

lemma vmul_nth: "n < length xs \<Longrightarrow> n < length ys \<Longrightarrow> vmul xs ys ! n = xs ! n * ys ! n"
  by (simp add: vmul_def)

lemma smul_nth: "n < length xs \<Longrightarrow> smul c xs ! n = c * xs ! n"
  by (simp add: smul_def)

lemma length_vadd: "length (vadd xs ys) = min (length xs) (length ys)"
  by (simp add: vadd_def)

lemma length_vsub: "length (vsub xs ys) = min (length xs) (length ys)"
  by (simp add: vsub_def)

lemma length_vmul: "length (vmul xs ys) = min (length xs) (length ys)"
  by (simp add: vmul_def)

lemma length_smul: "length (smul c xs) = length xs"
  by (simp add: smul_def)

lemmas vec_length = length_vadd length_vsub length_vmul length_smul

lemma length_gae_step:
  "length (rewards ! i) = N \<Longrightarrow> length (vals ! i) = N \<Longrightarrow> length (flags ! i) = N \<Longrightarrow>
   length lv = N \<Longrightarrow> length adv = N \<Longrightarrow>
   length (gae_step rewards vals flags gamma gae i lv adv) = N"
  by (simp add: gae_step_def vec_length)

lemma gae_step_nth:
  assumes "length (rewards ! i) = N" "length (vals ! i) = N" "length (flags ! i) = N"
    and "length lv = N" "length adv = N" "n < N"
  shows "gae_step rewards vals flags gamma gae i lv adv ! n =
     rewards ! i ! n + gamma * flags ! i ! n * lv ! n - vals ! i ! n
       + gamma * gae * flags ! i ! n * adv ! n"
  using assms
  by (simp add: gae_step_def vadd_nth vsub_nth vmul_nth smul_nth vec_length)

lemma gae_loop_Suc:
  "gae_loop rewards vals flags gamma gae (Suc k) (adv, lv, A) =
     gae_loop rewards vals flags gamma gae k
       (gae_step rewards vals flags gamma gae k lv adv, vals ! k,
        A[k := gae_step rewards vals flags gamma gae k lv adv])"
  by (simp add: Let_def gae_step_def)

lemma gae_loop_length:
  "length (snd (snd (gae_loop rewards vals flags gamma gae k (adv, lv, A)))) = length A"
  by (induction k arbitrary: adv lv A) (simp_all add: Let_def)

lemma gae_loop_above:
  "k \<le> t \<Longrightarrow> snd (snd (gae_loop rewards vals flags gamma gae k (adv, lv, A))) ! t = A ! t"
  by (induction k arbitrary: adv lv A) (simp_all add: Let_def)

text \<open>The backward recurrence: every row below the counter is one loop body applied to
  the value estimate and the advantage of the row after it.\<close>

lemma gae_loop_below:
  "t < k \<Longrightarrow> k \<le> length A \<Longrightarrow>
   snd (snd (gae_loop rewards vals flags gamma gae k (adv, lv, A))) ! t =
     gae_step rewards vals flags gamma gae t
       (if Suc t < k then vals ! Suc t else lv)
       (if Suc t < k then snd (snd (gae_loop rewards vals flags gamma gae k (adv, lv, A))) ! Suc t
        else adv)"
proof (induction k arbitrary: adv lv A)
  case 0
  then show ?case by simp
next
  case (Suc k)
  let ?adv' = "gae_step rewards vals flags gamma gae k lv adv"
  let ?R = "snd (snd (gae_loop rewards vals flags gamma gae k (?adv', vals ! k, A[k := ?adv'])))"
  have unfold: "snd (snd (gae_loop rewards vals flags gamma gae (Suc k) (adv, lv, A))) = ?R"
    by (simp only: gae_loop_Suc)
  have Rk: "?R ! k = ?adv'"
    using Suc.prems(2) by (simp add: gae_loop_above)
  show ?case
  proof (cases "t = k")
    case True
    then show ?thesis unfolding unfold using Rk by simp
  next
    case False
    with Suc.prems have tk: "t < k" by simp
    have len: "k \<le> length (A[k := ?adv'])" using Suc.prems(2) by simp
    have "?R ! t = gae_step rewards vals flags gamma gae t
       (if Suc t < k then vals ! Suc t else vals ! k)
       (if Suc t < k then ?R ! Suc t else ?adv')"
      by (rule Suc.IH [OF tk len])
    then show ?thesis unfolding unfold using tk Rk
      by (cases "Suc t = k") auto
  qed
qed

lemma gae_loop_rows:
  assumes "\<forall>i<k. length (rewards ! i) = N \<and> length (vals ! i) = N \<and> length (flags ! i) = N"
    and "length adv = N" "length lv = N" "\<forall>i<length A. length (A ! i) = N"
    and "i < length A"
  shows "length (snd (snd (gae_loop rewards vals flags gamma gae k (adv, lv, A))) ! i) = N"
  using assms
proof (induction k arbitrary: adv lv A)
  case 0
  then show ?case by simp
next
  case (Suc k)
  let ?adv' = "gae_step rewards vals flags gamma gae k lv adv"
  have la: "length ?adv' = N"
    using Suc.prems by (simp add: length_gae_step)
  have rows: "\<forall>j<length (A[k := ?adv']). length (A[k := ?adv'] ! j) = N"
  proof (intro allI impI)
    fix j assume "j < length (A[k := ?adv'])"
    then have j: "j < length A" by simp
    show "length (A[k := ?adv'] ! j) = N"
    proof (cases "j = k")
      case True
      with j la show ?thesis by simp
    next
      case False
      with j Suc.prems(4) show ?thesis by simp
    qed
  qed
  have "length (snd (snd (gae_loop rewards vals flags gamma gae k
            (?adv', vals ! k, A[k := ?adv']))) ! i) = N"
    by (rule Suc.IH) (use Suc.prems la rows in simp_all)
  then show ?case by (simp only: gae_loop_Suc)
qed

lemma compute_advantages_length:
  "length (compute_advantages rewards vals flags last_value gamma gae T N) = T"
  by (simp add: compute_advantages_def gae_loop_length zeros2_def)

lemma compute_advantages_row_length:
  assumes "well_shaped T N rewards" "well_shaped T N vals" "well_shaped T N flags"
    and "length last_value = N" "t < T"
  shows "length (compute_advantages rewards vals flags last_value gamma gae T N ! t) = N"
  unfolding compute_advantages_def
  by (rule gae_loop_rows)
     (use assms in \<open>simp_all add: well_shaped_nth zeros_def zeros2_def\<close>)

lemma compute_advantages_rec:
  assumes "t < T"
  shows "compute_advantages rewards vals flags last_value gamma gae T N ! t =
     gae_step rewards vals flags gamma gae t (next_value vals last_value T t)
       (if Suc t < T
        then compute_advantages rewards vals flags last_value gamma gae T N ! Suc t
        else zeros N)"
  unfolding compute_advantages_def next_value_def
  by (rule gae_loop_below) (use assms in \<open>simp_all add: zeros2_def\<close>)

lemmas vec_defs = zeros_def zeros2_def vadd_def vsub_def vmul_def smul_def

text \<open>
  Claim C1. Horizon 4, one lane, every reward 1, \<open>gamma = 0.5\<close>, \<open>gae = 1\<close>, value
  estimates 0, bootstrap 0 and continuation mask \<open>[1,1,1,0]\<close>: the estimator returns the
  advantages 1.875, 1.75, 1.5, 1 at \<open>t = 0,1,2,3\<close>. The Flax estimator is given the
  continuation mask; the PyTorch loop is given the matching done flags \<open>[0,0,0,1]\<close>.
\<close>

theorem gae_scenario:
  "compute_advantages [[1],[1],[1],[1]] [[0],[0],[0],[0]] [[1],[1],[1],[0]] [0] 0.5 1 4 1
     = [[1.875],[1.75],[1.5],[1]] \<and>
   pt_compute_advantages [[1],[1],[1],[1]] [[0],[0],[0],[0]] [[0],[0],[0],[1]] [0] 0.5 1 4 1
     = [[1.875],[1.75],[1.5],[1]]"
  by (simp add: compute_advantages_def pt_compute_advantages_def vec_defs eval_nat_numeral Let_def)

lemma vmul_smul_swap: "vmul (smul c xs) ys = vmul (smul c ys) xs"
proof (induction xs arbitrary: ys)
  case Nil
  then show ?case by (simp add: vmul_def smul_def)
next
  case (Cons x xs)
  then show ?case by (cases ys) (simp_all add: vmul_def smul_def)
qed

lemma vadd_commute: "vadd xs ys = vadd ys xs"
proof (induction xs arbitrary: ys)
  case Nil
  then show ?case by (simp add: vadd_def)
next
  case (Cons x xs)
  then show ?case by (cases ys) (simp_all add: vadd_def)
qed

lemma pt_gae_loop_eq:
  "\<forall>i<k. map (\<lambda>f. 1 - f) (PF ! i) = FF ! i \<Longrightarrow>
   pt_gae_loop rewards vals PF gamma gae k st = gae_loop rewards vals FF gamma gae k st"
proof (induction k arbitrary: st)
  case 0
  then show ?case by simp
next
  case (Suc k)
  obtain adv lv A where st: "st = (adv, lv, A)" by (cases st)
  have row: "map (\<lambda>f. 1 - f) (PF ! k) = FF ! k" using Suc.prems by simp
  have ih: "\<And>st'. pt_gae_loop rewards vals PF gamma gae k st' = gae_loop rewards vals FF gamma gae k st'"
    using Suc.prems by (intro Suc.IH) simp
  show ?case
    unfolding st
    by (simp add: Let_def row ih vmul_smul_swap [of _ lv] vmul_smul_swap [of _ adv]
        vadd_commute [of "vmul _ _"])
qed

lemma pt_compute_advantages_eq:
  assumes "length F = T"
  shows "pt_compute_advantages rewards vals F lv gamma gae T N =
         compute_advantages rewards vals (map (map (\<lambda>f. 1 - f)) F) lv gamma gae T N"
  unfolding pt_compute_advantages_def compute_advantages_def
  using assms by (subst pt_gae_loop_eq [where FF = "map (map (\<lambda>f. 1 - f)) F"]) simp_all

lemma well_shaped_map:
  "well_shaped T N F \<Longrightarrow> well_shaped T N (map (map g) F)"
  by (simp add: well_shaped_def list_all_length)


text \<open>
  Claim C2. With \<open>gae = 0\<close> the advantage of every step \<open>t\<close> and lane \<open>n\<close> is the
  one-step TD error \<open>reward[t] + gamma * value[t+1] * continuation[t] - value[t]\<close>, where
  \<open>value[T]\<close> is the bootstrap value; no advantage of another step occurs in it. The
  Flax estimator reads the continuation from the flag table, the PyTorch loop reads it
  as \<open>1 - flag\<close>.
\<close>

theorem gae_zero_is_td_error:
  assumes "well_shaped T N rewards" "well_shaped T N vals" "well_shaped T N flags"
    and "length last_value = N" "t < T" "n < N"
  shows "compute_advantages rewards vals flags last_value gamma 0 T N ! t ! n =
           rewards ! t ! n + gamma * next_value vals last_value T t ! n * flags ! t ! n
             - vals ! t ! n
       \<and> pt_compute_advantages rewards vals flags last_value gamma 0 T N ! t ! n =
           rewards ! t ! n + gamma * next_value vals last_value T t ! n * (1 - flags ! t ! n)
             - vals ! t ! n"
proof -
  have td: "compute_advantages rewards vals F last_value gamma 0 T N ! t ! n =
           rewards ! t ! n + gamma * next_value vals last_value T t ! n * F ! t ! n
             - vals ! t ! n" if F: "well_shaped T N F" for F
  proof -
    let ?A = "compute_advantages rewards vals F last_value gamma 0 T N"
    let ?adv = "if Suc t < T then ?A ! Suc t else zeros N"
    have nv: "length (next_value vals last_value T t) = N"
      using assms by (simp add: next_value_def well_shaped_nth)
    have la: "length ?adv = N"
      using assms F by (simp add: compute_advantages_row_length zeros_def)
    have "?A ! t = gae_step rewards vals F gamma 0 t (next_value vals last_value T t) ?adv"
      using assms(5) by (rule compute_advantages_rec)
    then have "?A ! t ! n =
        rewards ! t ! n + gamma * F ! t ! n * next_value vals last_value T t ! n - vals ! t ! n
          + gamma * 0 * F ! t ! n * ?adv ! n"
      using assms F nv la
      by (simp only: gae_step_nth [where N = N] well_shaped_nth)
    then show ?thesis by simp
  qed
  have pt: "pt_compute_advantages rewards vals flags last_value gamma 0 T N =
      compute_advantages rewards vals (map (map (\<lambda>f. 1 - f)) flags) last_value gamma 0 T N"
    using assms(3) by (simp add: pt_compute_advantages_eq well_shaped_length)
  have nth: "map (map (\<lambda>f. 1 - f)) flags ! t ! n = 1 - flags ! t ! n"
    using assms by (simp add: well_shaped_length well_shaped_nth)
  show ?thesis
    using td [OF assms(3)] td [OF well_shaped_map [OF assms(3)], of "\<lambda>f. 1 - f"]
    by (simp only: pt nth)
qed

theorem gae_zero_is_td_error_witness:
  "well_shaped 2 1 [[1],[1::real]] \<and> well_shaped 2 1 [[2],[3::real]] \<and>
   well_shaped 2 1 [[1],[0::real]] \<and> length [5::real] = 1 \<and> (0::nat) < 2 \<and> (0::nat) < 1 \<and>
   compute_advantages [[1],[1]] [[2],[3]] [[1],[0]] [5] 0.5 0 2 1 ! 0 ! 0 = 0.5 \<and>
   pt_compute_advantages [[1],[1]] [[2],[3]] [[1],[0]] [5] 0.5 0 2 1 ! 0 ! 0 = -1"
proof -
  have a: "well_shaped 2 1 [[1],[1::real]]" "well_shaped 2 1 [[2],[3::real]]"
    "well_shaped 2 1 [[1],[0::real]]"
    by (simp_all add: well_shaped_def)
  have b: "length [5::real] = 1" "(0::nat) < 2" "(0::nat) < 1" by simp_all
  show ?thesis
    using a b gae_zero_is_td_error [OF a b, of "0.5"]
    by (simp add: next_value_def)
qed

text \<open>
  Claim C3. After advantage estimation the TD target of every (time step, lane) entry is
  the computed advantage plus the stored value estimate, in both variants.
\<close>

theorem td_target_elementwise:
  assumes "well_shaped T N rewards" "well_shaped T N vals" "well_shaped T N flags"
    and "length last_value = N" "t < T" "n < N"
  shows "td_target (compute_advantages rewards vals flags last_value gamma gae T N) vals ! t ! n =
           compute_advantages rewards vals flags last_value gamma gae T N ! t ! n + vals ! t ! n
       \<and> td_target (pt_compute_advantages rewards vals flags last_value gamma gae T N) vals ! t ! n =
           pt_compute_advantages rewards vals flags last_value gamma gae T N ! t ! n + vals ! t ! n"
proof -
  have tt: "td_target (compute_advantages rewards vals F last_value gamma gae T N) vals ! t ! n =
           compute_advantages rewards vals F last_value gamma gae T N ! t ! n + vals ! t ! n"
    if F: "well_shaped T N F" for F
  proof -
    let ?A = "compute_advantages rewards vals F last_value gamma gae T N"
    have "length ?A = T" by (rule compute_advantages_length)
    moreover have "length vals = T" using assms(2) by (rule well_shaped_length)
    ultimately have "td_target ?A vals ! t = vadd (?A ! t) (vals ! t)"
      using assms(5) by (simp add: td_target_def)
    moreover have "length (?A ! t) = N"
      using assms F by (simp add: compute_advantages_row_length)
    moreover have "length (vals ! t) = N"
      using assms by (simp add: well_shaped_nth)
    ultimately show ?thesis using assms(6) by (simp add: vadd_nth)
  qed
  have pt: "pt_compute_advantages rewards vals flags last_value gamma gae T N =
      compute_advantages rewards vals (map (map (\<lambda>f. 1 - f)) flags) last_value gamma gae T N"
    using assms(3) by (simp add: pt_compute_advantages_eq well_shaped_length)
  show ?thesis
    using tt [OF assms(3)] tt [OF well_shaped_map [OF assms(3)], of "\<lambda>f. 1 - f"]
    by (simp only: pt)
qed

theorem td_target_elementwise_witness:
  "well_shaped 2 1 [[1],[1::real]] \<and> well_shaped 2 1 [[2],[3::real]] \<and>
   well_shaped 2 1 [[1],[0::real]] \<and> length [5::real] = 1 \<and> (1::nat) < 2 \<and> (0::nat) < 1 \<and>
   td_target (compute_advantages [[1],[1]] [[2],[3]] [[1],[0]] [5] 0.5 1 2 1) [[2],[3]] ! 1 ! 0 = 1 \<and>
   td_target (pt_compute_advantages [[1],[1]] [[2],[3]] [[1],[0]] [5] 0.5 1 2 1) [[2],[3]] ! 1 ! 0 = 3.5"
proof -
  have a: "well_shaped 2 1 [[1],[1::real]]" "well_shaped 2 1 [[2],[3::real]]"
    "well_shaped 2 1 [[1],[0::real]]"
    by (simp_all add: well_shaped_def)
  have b: "length [5::real] = 1" "(1::nat) < 2" "(0::nat) < 1" by simp_all
  have c: "compute_advantages [[1],[1]] [[2],[3]] [[1],[0]] [5] 0.5 1 2 1 = [[-1/2],[-2]]"
    "pt_compute_advantages [[1],[1]] [[2],[3]] [[1],[0]] [5] 0.5 1 2 1 = [[-1],[1/2]]"
    by (simp_all add: compute_advantages_def pt_compute_advantages_def vec_defs
        eval_nat_numeral Let_def)
  show ?thesis
    unfolding c
    using a b td_target_elementwise [OF a b, of "0.5" 1, unfolded c]
    by simp
qed

text \<open>The two loops agree on every input of the model, whenever the two flag tables
  have a row for each step.\<close>

lemma pt_flax_agree:
  assumes "length terminated = T" "length truncated = T"
  shows "pt_compute_advantages rewards vals (pt_flags terminated truncated) last_value gamma gae T N =
         compute_advantages rewards vals (flax_flags terminated truncated) last_value gamma gae T N"
proof -
  have "map (\<lambda>f. 1 - f) (pt_flags terminated truncated ! i) = flax_flags terminated truncated ! i"
    if "i < T" for i
    using that assms by (auto simp: pt_flags_def flax_flags_def pt_flag_def flax_flag_def)
  then show ?thesis
    unfolding pt_compute_advantages_def compute_advantages_def
    by (subst pt_gae_loop_eq [where FF = "flax_flags terminated truncated"]) simp_all
qed

text \<open>
  Claim C4. From the same rewards, value estimates, bootstrap value, \<open>gamma\<close>, \<open>gae\<close>
  and the same terminated/truncated indicators of every step, the PyTorch loop (which
  stores the done flag and uses \<open>1 - flag\<close>) and the Flax estimator (which stores the
  continuation flag and uses it directly) compute the same advantage table, for tables
  of \<open>T\<close> rows and \<open>N\<close> lanes.
\<close>

theorem pt_flax_same_advantages:
  assumes "well_shaped T N rewards" "well_shaped T N vals"
    and "well_shaped T N terminated" "well_shaped T N truncated"
    and "length last_value = N"
  shows "pt_compute_advantages rewards vals (pt_flags terminated truncated) last_value gamma gae T N =
         compute_advantages rewards vals (flax_flags terminated truncated) last_value gamma gae T N"
  using assms(3,4) by (intro pt_flax_agree well_shaped_length)

theorem pt_flax_same_advantages_witness:
  "well_shaped 2 1 [[1],[1::real]] \<and> well_shaped 2 1 [[2],[3::real]] \<and>
   well_shaped 2 1 [[False],[True]] \<and> well_shaped 2 1 [[False],[False]] \<and>
   length [5::real] = 1 \<and>
   pt_compute_advantages [[1],[1]] [[2],[3]] (pt_flags [[False],[True]] [[False],[False]])
       [5] 0.5 1 2 1 = [[-1/2],[-2]] \<and>
   compute_advantages [[1],[1]] [[2],[3]] (flax_flags [[False],[True]] [[False],[False]])
       [5] 0.5 1 2 1 = [[-1/2],[-2]]"
proof -
  have a: "well_shaped 2 1 [[1],[1::real]]" "well_shaped 2 1 [[2],[3::real]]"
    "well_shaped 2 1 [[False],[True]]" "well_shaped 2 1 [[False],[False]]"
    by (simp_all add: well_shaped_def)
  have b: "length [5::real] = 1" by simp
  have c: "compute_advantages [[1],[1]] [[2],[3]] (flax_flags [[False],[True]] [[False],[False]])
       [5] 0.5 1 2 1 = [[-1/2],[-2]]"
    by (simp add: compute_advantages_def flax_flags_def flax_flag_def vec_defs
        eval_nat_numeral Let_def)
  show ?thesis
    using a b c pt_flax_same_advantages [OF a b, of "0.5" 1]
    by simp
qed

section \<open>Properties of the rollout buffer\<close>

lemma bind_err_Inr [simp]: "bind_err (Inr x) f = f x"
  by (simp add: bind_err_def)

lemma bind_err_Inl [simp]: "bind_err (Inl e) f = Inl e"
  by (simp add: bind_err_def)

lemma assign_row_ok:
  "well_shaped T N arr \<Longrightarrow> i < T \<Longrightarrow> length row = N \<Longrightarrow>
   assign_row arr i row = Inr (arr[i := row])"
  by (simp add: assign_row_def well_shaped_def list_all_length)

lemma well_shaped_update:
  assumes "well_shaped T N arr" "length row = N"
  shows "well_shaped T N (arr[i := row])"
proof (cases "i < length arr")
  case True
  with assms show ?thesis
    by (auto simp: well_shaped_def list_all_length nth_list_update)
next
  case False
  then have "length arr \<le> i" by simp
  then have "arr[i := row] = arr" by (rule list_update_beyond)
  with assms show ?thesis by simp
qed

lemma well_shaped_replicate: "well_shaped T N (replicate T (replicate N x))"
  by (simp add: well_shaped_def list_all_length)

lemma buffer_inv_init:
  "0 < num_steps \<Longrightarrow> buffer_inv num_envs (RolloutBuffer num_steps num_envs)"
  by (simp add: buffer_inv_def RolloutBuffer_def zeros2_def zeros_def well_shaped_replicate)

lemma push_ok:
  assumes "buffer_inv N b" "transition_shaped N x"
  shows "push b (tr_state x) (tr_action x) (tr_reward x) (tr_flag x) (tr_log_prob x) (tr_value x) =
     Inr (b\<lparr>rb_states := (rb_states b)[rb_step b := tr_state x],
            rb_actions := (rb_actions b)[rb_step b := tr_action x],
            rb_rewards := (rb_rewards b)[rb_step b := tr_reward x],
            rb_flags := (rb_flags b)[rb_step b := tr_flag x],
            rb_log_probs := (rb_log_probs b)[rb_step b := tr_log_prob x],
            rb_values := (rb_values b)[rb_step b := tr_value x],
            rb_step := (rb_step b + 1) mod rb_num_steps b\<rparr>)"
  using assms
  by (simp add: push_def buffer_inv_def transition_shaped_def
      assign_row_ok [where T = "rb_num_steps b" and N = N])

lemma push_inv:
  assumes "buffer_inv N b" "transition_shaped N x"
    and "push b (tr_state x) (tr_action x) (tr_reward x) (tr_flag x) (tr_log_prob x) (tr_value x) = Inr b'"
  shows "buffer_inv N b'" "rb_num_steps b' = rb_num_steps b"
  using assms(3) assms(1,2) unfolding push_ok [OF assms(1,2)]
  by (auto simp: buffer_inv_def transition_shaped_def well_shaped_update)

text \<open>Pushing a run of transitions that fits between the cursor and the end of the
  arrays: the rows are stored from the cursor on, in push order.\<close>

lemma pushes_run:
  assumes "buffer_inv N b" "list_all (transition_shaped N) xs"
    and "rb_step b + length xs \<le> rb_num_steps b"
  shows "\<exists>b'. pushes b xs = Inr b' \<and> buffer_inv N b' \<and>
      rb_num_steps b' = rb_num_steps b \<and>
      rb_step b' = (rb_step b + length xs) mod rb_num_steps b \<and>
      rb_states b' = take (rb_step b) (rb_states b) @ map tr_state xs
                       @ drop (rb_step b + length xs) (rb_states b) \<and>
      rb_actions b' = take (rb_step b) (rb_actions b) @ map tr_action xs
                       @ drop (rb_step b + length xs) (rb_actions b) \<and>
      rb_rewards b' = take (rb_step b) (rb_rewards b) @ map tr_reward xs
                       @ drop (rb_step b + length xs) (rb_rewards b) \<and>
      rb_flags b' = take (rb_step b) (rb_flags b) @ map tr_flag xs
                       @ drop (rb_step b + length xs) (rb_flags b) \<and>
      rb_log_probs b' = take (rb_step b) (rb_log_probs b) @ map tr_log_prob xs
                       @ drop (rb_step b + length xs) (rb_log_probs b) \<and>
      rb_values b' = take (rb_step b) (rb_values b) @ map tr_value xs
                       @ drop (rb_step b + length xs) (rb_values b)"
  using assms
proof (induction xs arbitrary: b)
  case Nil
  then show ?case by (simp add: buffer_inv_def)
next
  case (Cons x xs)
  let ?n = "rb_num_steps b" and ?s = "rb_step b"
  let ?b1 = "b\<lparr>rb_states := (rb_states b)[?s := tr_state x],
            rb_actions := (rb_actions b)[?s := tr_action x],
            rb_rewards := (rb_rewards b)[?s := tr_reward x],
            rb_flags := (rb_flags b)[?s := tr_flag x],
            rb_log_probs := (rb_log_probs b)[?s := tr_log_prob x],
            rb_values := (rb_values b)[?s := tr_value x],
            rb_step := (?s + 1) mod ?n\<rparr>"
  have x: "transition_shaped N x" and xs: "list_all (transition_shaped N) xs"
    using Cons.prems(2) by simp_all
  have p: "push b (tr_state x) (tr_action x) (tr_reward x) (tr_flag x) (tr_log_prob x) (tr_value x)
      = Inr ?b1"
    by (rule push_ok [OF Cons.prems(1) x])
  have inv1: "buffer_inv N ?b1" and n1: "rb_num_steps ?b1 = ?n"
    using push_inv [OF Cons.prems(1) x p] by simp_all
  have s: "?s < ?n" using Cons.prems(3) by simp
  have lens: "length (rb_states b) = ?n" "length (rb_actions b) = ?n"
    "length (rb_rewards b) = ?n" "length (rb_flags b) = ?n"
    "length (rb_log_probs b) = ?n" "length (rb_values b) = ?n"
    using Cons.prems(1) by (simp_all add: buffer_inv_def well_shaped_def)
  show ?case
  proof (cases "?s + 1 < ?n")
    case True
    then have s1: "rb_step ?b1 = ?s + 1" by simp
    have fit: "rb_step ?b1 + length xs \<le> rb_num_steps ?b1"
      using Cons.prems(3) s1 by simp
    from Cons.IH [OF inv1 xs fit] obtain b' where
      b': "pushes ?b1 xs = Inr b'" "buffer_inv N b'" "rb_num_steps b' = ?n"
      "rb_step b' = (?s + 1 + length xs) mod ?n"
      "rb_states b' = take (?s + 1) ((rb_states b)[?s := tr_state x]) @ map tr_state xs
          @ drop (?s + 1 + length xs) ((rb_states b)[?s := tr_state x])"
      "rb_actions b' = take (?s + 1) ((rb_actions b)[?s := tr_action x]) @ map tr_action xs
          @ drop (?s + 1 + length xs) ((rb_actions b)[?s := tr_action x])"
      "rb_rewards b' = take (?s + 1) ((rb_rewards b)[?s := tr_reward x]) @ map tr_reward xs
          @ drop (?s + 1 + length xs) ((rb_rewards b)[?s := tr_reward x])"
      "rb_flags b' = take (?s + 1) ((rb_flags b)[?s := tr_flag x]) @ map tr_flag xs
          @ drop (?s + 1 + length xs) ((rb_flags b)[?s := tr_flag x])"
      "rb_log_probs b' = take (?s + 1) ((rb_log_probs b)[?s := tr_log_prob x]) @ map tr_log_prob xs
          @ drop (?s + 1 + length xs) ((rb_log_probs b)[?s := tr_log_prob x])"
      "rb_values b' = take (?s + 1) ((rb_values b)[?s := tr_value x]) @ map tr_value xs
          @ drop (?s + 1 + length xs) ((rb_values b)[?s := tr_value x])"
      unfolding s1 by auto
    have upd: "take (Suc ?s) (arr[?s := r]) = take ?s arr @ [r]"
      if "length arr = ?n" for arr :: "'b list" and r
      using that s by (simp add: take_Suc_conv_app_nth)
    show ?thesis
      using b' by (simp add: p upd lens)
  next
    case False
    with s Cons.prems(3) have last: "?s + 1 = ?n" by simp
    from False Cons.prems(3) have "length xs < 1" by (simp only: list.size)
    then have nil: "xs = []" by simp
    have upd: "arr[?s := r] = take ?s arr @ [r]" if "length arr = ?n" for arr :: "'b list" and r
      using that last by (metis Suc_eq_plus1 append_Nil2 drop_all le_refl lessI upd_conv_take_nth_drop)
    show ?thesis
      using inv1 last by (simp add: p nil upd lens)
  qed
qed

lemma pushes_cursor:
  assumes "buffer_inv N b" "list_all (transition_shaped N) xs"
  shows "\<exists>b'. pushes b xs = Inr b' \<and> buffer_inv N b' \<and>
      rb_num_steps b' = rb_num_steps b \<and>
      rb_step b' = (rb_step b + length xs) mod rb_num_steps b"
  using assms
proof (induction xs arbitrary: b)
  case Nil
  then show ?case by (simp add: buffer_inv_def)
next
  case (Cons x xs)
  have x: "transition_shaped N x" and xs: "list_all (transition_shaped N) xs"
    using Cons.prems(2) by simp_all
  obtain b1 where p: "push b (tr_state x) (tr_action x) (tr_reward x) (tr_flag x)
      (tr_log_prob x) (tr_value x) = Inr b1"
    and s1: "rb_step b1 = (rb_step b + 1) mod rb_num_steps b"
    using push_ok [OF Cons.prems(1) x] by simp
  have inv1: "buffer_inv N b1" and n1: "rb_num_steps b1 = rb_num_steps b"
    using push_inv [OF Cons.prems(1) x p] by simp_all
  from Cons.IH [OF inv1 xs] obtain b' where
    b': "pushes b1 xs = Inr b'" "buffer_inv N b'" "rb_num_steps b' = rb_num_steps b1"
      "rb_step b' = (rb_step b1 + length xs) mod rb_num_steps b1"
    by auto
  have "(rb_step b1 + length xs) mod rb_num_steps b1 =
        (rb_step b + length (x # xs)) mod rb_num_steps b"
    unfolding s1 n1 by (simp add: mod_add_left_eq)
  with b' n1 show ?case by (simp add: p)
qed

lemma ppo_buffer_ring:
  assumes "0 < num_steps" "list_all (transition_shaped num_envs) xs"
  shows "\<exists>b. pushes (RolloutBuffer num_steps num_envs) xs = Inr b \<and>
      rb_step b < rb_num_steps b \<and> rb_num_steps b = num_steps \<and>
      rb_step b = length xs mod num_steps \<and>
      (\<forall>x. transition_shaped num_envs x \<longrightarrow>
         push b (tr_state x) (tr_action x) (tr_reward x) (tr_flag x) (tr_log_prob x) (tr_value x) =
           Inr (b\<lparr>rb_states := (rb_states b)[rb_step b := tr_state x],
                  rb_actions := (rb_actions b)[rb_step b := tr_action x],
                  rb_rewards := (rb_rewards b)[rb_step b := tr_reward x],
                  rb_flags := (rb_flags b)[rb_step b := tr_flag x],
                  rb_log_probs := (rb_log_probs b)[rb_step b := tr_log_prob x],
                  rb_values := (rb_values b)[rb_step b := tr_value x],
                  rb_step := (rb_step b + 1) mod num_steps\<rparr>)) \<and>
      (length xs = num_steps \<longrightarrow>
         rb_step b = 0 \<and>
         get b = (map tr_state xs, map tr_action xs, map tr_reward xs, map tr_flag xs,
                  map tr_log_prob xs, map tr_value xs))"
proof -
  let ?b0 = "RolloutBuffer num_steps num_envs :: 'a rollout_buffer"
  have inv0: "buffer_inv num_envs ?b0"
    using assms(1) by (rule buffer_inv_init)
  have b0: "rb_step ?b0 = 0" "rb_num_steps ?b0 = num_steps"
    "length (rb_states ?b0) = num_steps" "length (rb_actions ?b0) = num_steps"
    "length (rb_rewards ?b0) = num_steps" "length (rb_flags ?b0) = num_steps"
    "length (rb_log_probs ?b0) = num_steps" "length (rb_values ?b0) = num_steps"
    by (simp_all add: RolloutBuffer_def zeros2_def)
  from pushes_cursor [OF inv0 assms(2)] obtain b where
    b: "pushes ?b0 xs = Inr b" "buffer_inv num_envs b" "rb_num_steps b = num_steps"
      "rb_step b = length xs mod num_steps"
    by (auto simp: b0)
  have cursor: "rb_step b < rb_num_steps b"
    using b(2) by (simp add: buffer_inv_def)
  have one: "push b (tr_state x) (tr_action x) (tr_reward x) (tr_flag x) (tr_log_prob x) (tr_value x) =
           Inr (b\<lparr>rb_states := (rb_states b)[rb_step b := tr_state x],
                  rb_actions := (rb_actions b)[rb_step b := tr_action x],
                  rb_rewards := (rb_rewards b)[rb_step b := tr_reward x],
                  rb_flags := (rb_flags b)[rb_step b := tr_flag x],
                  rb_log_probs := (rb_log_probs b)[rb_step b := tr_log_prob x],
                  rb_values := (rb_values b)[rb_step b := tr_value x],
                  rb_step := (rb_step b + 1) mod num_steps\<rparr>)"
    if "transition_shaped num_envs x" for x
    using push_ok [OF b(2) that] by (simp only: b(3))
  have full: "rb_step b = 0 \<and>
         get b = (map tr_state xs, map tr_action xs, map tr_reward xs, map tr_flag xs,
                  map tr_log_prob xs, map tr_value xs)"
    if len: "length xs = num_steps"
  proof -
    have fit: "rb_step ?b0 + length xs \<le> rb_num_steps ?b0"
      using len by (simp add: b0)
    from pushes_run [OF inv0 assms(2) fit] b(1) len
    show ?thesis by (auto simp: b0 get_def)
  qed
  from b(1) cursor b(3,4) one full show ?thesis by blast
qed

lemma a2c_buffer_inv_init:
  "0 < num_steps \<Longrightarrow> a2c_buffer_inv num_envs (A2C_RolloutBuffer num_steps num_envs)"
  by (simp add: a2c_buffer_inv_def A2C_RolloutBuffer_def zeros2_def zeros_def well_shaped_replicate)

lemma a2c_push_ok:
  assumes "a2c_buffer_inv N b" "a2c_transition_shaped N x"
  shows "a2c_push b (tr_state x) (tr_action x) (tr_reward x) (tr_flag x) (tr_value x) =
     Inr (b\<lparr>a2c_states := (a2c_states b)[a2c_step b := tr_state x],
            a2c_actions := (a2c_actions b)[a2c_step b := tr_action x],
            a2c_rewards := (a2c_rewards b)[a2c_step b := tr_reward x],
            a2c_flags := (a2c_flags b)[a2c_step b := tr_flag x],
            a2c_values := (a2c_values b)[a2c_step b := tr_value x],
            a2c_step := (a2c_step b + 1) mod a2c_num_steps b\<rparr>)"
  using assms
  by (simp add: a2c_push_def a2c_buffer_inv_def a2c_transition_shaped_def
      assign_row_ok [where T = "a2c_num_steps b" and N = N])

lemma a2c_push_inv:
  assumes "a2c_buffer_inv N b" "a2c_transition_shaped N x"
    and "a2c_push b (tr_state x) (tr_action x) (tr_reward x) (tr_flag x) (tr_value x) = Inr b'"
  shows "a2c_buffer_inv N b'" "a2c_num_steps b' = a2c_num_steps b"
  using assms(3) assms(1,2) unfolding a2c_push_ok [OF assms(1,2)]
  by (auto simp: a2c_buffer_inv_def a2c_transition_shaped_def well_shaped_update)

lemma a2c_pushes_run:
  assumes "a2c_buffer_inv N b" "list_all (a2c_transition_shaped N) xs"
    and "a2c_step b + length xs \<le> a2c_num_steps b"
  shows "\<exists>b'. a2c_pushes b xs = Inr b' \<and> a2c_buffer_inv N b' \<and>
      a2c_num_steps b' = a2c_num_steps b \<and>
      a2c_step b' = (a2c_step b + length xs) mod a2c_num_steps b \<and>
      a2c_states b' = take (a2c_step b) (a2c_states b) @ map tr_state xs
                       @ drop (a2c_step b + length xs) (a2c_states b) \<and>
      a2c_actions b' = take (a2c_step b) (a2c_actions b) @ map tr_action xs
                       @ drop (a2c_step b + length xs) (a2c_actions b) \<and>
      a2c_rewards b' = take (a2c_step b) (a2c_rewards b) @ map tr_reward xs
                       @ drop (a2c_step b + length xs) (a2c_rewards b) \<and>
      a2c_flags b' = take (a2c_step b) (a2c_flags b) @ map tr_flag xs
                       @ drop (a2c_step b + length xs) (a2c_flags b) \<and>
      a2c_values b' = take (a2c_step b) (a2c_values b) @ map tr_value xs
                       @ drop (a2c_step b + length xs) (a2c_values b)"
  using assms
proof (induction xs arbitrary: b)
  case Nil
  then show ?case by (simp add: a2c_buffer_inv_def)
next
  case (Cons x xs)
  let ?n = "a2c_num_steps b" and ?s = "a2c_step b"
  let ?b1 = "b\<lparr>a2c_states := (a2c_states b)[?s := tr_state x],
            a2c_actions := (a2c_actions b)[?s := tr_action x],
            a2c_rewards := (a2c_rewards b)[?s := tr_reward x],
            a2c_flags := (a2c_flags b)[?s := tr_flag x],
            a2c_values := (a2c_values b)[?s := tr_value x],
            a2c_step := (?s + 1) mod ?n\<rparr>"
  have x: "a2c_transition_shaped N x" and xs: "list_all (a2c_transition_shaped N) xs"
    using Cons.prems(2) by simp_all
  have p: "a2c_push b (tr_state x) (tr_action x) (tr_reward x) (tr_flag x) (tr_value x)
      = Inr ?b1"
    by (rule a2c_push_ok [OF Cons.prems(1) x])
  have inv1: "a2c_buffer_inv N ?b1" and n1: "a2c_num_steps ?b1 = ?n"
    using a2c_push_inv [OF Cons.prems(1) x p] by simp_all
  have s: "?s < ?n" using Cons.prems(3) by simp
  have lens: "length (a2c_states b) = ?n" "length (a2c_actions b) = ?n"
    "length (a2c_rewards b) = ?n" "length (a2c_flags b) = ?n"
    "length (a2c_values b) = ?n"
    using Cons.prems(1) by (simp_all add: a2c_buffer_inv_def well_shaped_def)
  show ?case
  proof (cases "?s + 1 < ?n")
    case True
    then have s1: "a2c_step ?b1 = ?s + 1" by simp
    have fit: "a2c_step ?b1 + length xs \<le> a2c_num_steps ?b1"
      using Cons.prems(3) s1 by simp
    from Cons.IH [OF inv1 xs fit] obtain b' where
      b': "a2c_pushes ?b1 xs = Inr b'" "a2c_buffer_inv N b'" "a2c_num_steps b' = ?n"
      "a2c_step b' = (?s + 1 + length xs) mod ?n"
      "a2c_states b' = take (?s + 1) ((a2c_states b)[?s := tr_state x]) @ map tr_state xs
          @ drop (?s + 1 + length xs) ((a2c_states b)[?s := tr_state x])"
      "a2c_actions b' = take (?s + 1) ((a2c_actions b)[?s := tr_action x]) @ map tr_action xs
          @ drop (?s + 1 + length xs) ((a2c_actions b)[?s := tr_action x])"
      "a2c_rewards b' = take (?s + 1) ((a2c_rewards b)[?s := tr_reward x]) @ map tr_reward xs
          @ drop (?s + 1 + length xs) ((a2c_rewards b)[?s := tr_reward x])"
      "a2c_flags b' = take (?s + 1) ((a2c_flags b)[?s := tr_flag x]) @ map tr_flag xs
          @ drop (?s + 1 + length xs) ((a2c_flags b)[?s := tr_flag x])"
      "a2c_values b' = take (?s + 1) ((a2c_values b)[?s := tr_value x]) @ map tr_value xs
          @ drop (?s + 1 + length xs) ((a2c_values b)[?s := tr_value x])"
      unfolding s1 by auto
    have upd: "take (Suc ?s) (arr[?s := r]) = take ?s arr @ [r]"
      if "length arr = ?n" for arr :: "'b list" and r
      using that s by (simp add: take_Suc_conv_app_nth)
    show ?thesis
      using b' by (simp add: p upd lens)
  next
    case False
    with s Cons.prems(3) have last: "?s + 1 = ?n" by simp
    from False Cons.prems(3) have "length xs < 1" by (simp only: list.size)
    then have nil: "xs = []" by simp
    have upd: "arr[?s := r] = take ?s arr @ [r]" if "length arr = ?n" for arr :: "'b list" and r
      using that last by (metis Suc_eq_plus1 append_Nil2 drop_all le_refl lessI upd_conv_take_nth_drop)
    show ?thesis
      using inv1 last by (simp add: p nil upd lens)
  qed
qed

lemma a2c_pushes_cursor:
  assumes "a2c_buffer_inv N b" "list_all (a2c_transition_shaped N) xs"
  shows "\<exists>b'. a2c_pushes b xs = Inr b' \<and> a2c_buffer_inv N b' \<and>
      a2c_num_steps b' = a2c_num_steps b \<and>
      a2c_step b' = (a2c_step b + length xs) mod a2c_num_steps b"
  using assms
proof (induction xs arbitrary: b)
  case Nil
  then show ?case by (simp add: a2c_buffer_inv_def)
next
  case (Cons x xs)
  have x: "a2c_transition_shaped N x" and xs: "list_all (a2c_transition_shaped N) xs"
    using Cons.prems(2) by simp_all
  obtain b1 where p: "a2c_push b (tr_state x) (tr_action x) (tr_reward x) (tr_flag x)
      (tr_value x) = Inr b1"
    and s1: "a2c_step b1 = (a2c_step b + 1) mod a2c_num_steps b"
    using a2c_push_ok [OF Cons.prems(1) x] by simp
  have inv1: "a2c_buffer_inv N b1" and n1: "a2c_num_steps b1 = a2c_num_steps b"
    using a2c_push_inv [OF Cons.prems(1) x p] by simp_all
  from Cons.IH [OF inv1 xs] obtain b' where
    b': "a2c_pushes b1 xs = Inr b'" "a2c_buffer_inv N b'" "a2c_num_steps b' = a2c_num_steps b1"
      "a2c_step b' = (a2c_step b1 + length xs) mod a2c_num_steps b1"
    by auto
  have "(a2c_step b1 + length xs) mod a2c_num_steps b1 =
        (a2c_step b + length (x # xs)) mod a2c_num_steps b"
    unfolding s1 n1 by (simp add: mod_add_left_eq)
  with b' n1 show ?case by (simp add: p)
qed

lemma a2c_buffer_ring:
  assumes "0 < num_steps" "list_all (a2c_transition_shaped num_envs) xs"
  shows "\<exists>b. a2c_pushes (A2C_RolloutBuffer num_steps num_envs) xs = Inr b \<and>
      a2c_step b < a2c_num_steps b \<and> a2c_num_steps b = num_steps \<and>
      a2c_step b = length xs mod num_steps \<and>
      (\<forall>x. a2c_transition_shaped num_envs x \<longrightarrow>
         a2c_push b (tr_state x) (tr_action x) (tr_reward x) (tr_flag x) (tr_value x) =
           Inr (b\<lparr>a2c_states := (a2c_states b)[a2c_step b := tr_state x],
                  a2c_actions := (a2c_actions b)[a2c_step b := tr_action x],
                  a2c_rewards := (a2c_rewards b)[a2c_step b := tr_reward x],
                  a2c_flags := (a2c_flags b)[a2c_step b := tr_flag x],
                  a2c_values := (a2c_values b)[a2c_step b := tr_value x],
                  a2c_step := (a2c_step b + 1) mod num_steps\<rparr>)) \<and>
      (length xs = num_steps \<longrightarrow>
         a2c_step b = 0 \<and>
         a2c_get b = (map tr_state xs, map tr_action xs, map tr_reward xs, map tr_flag xs,
                  map tr_value xs))"
proof -
  let ?b0 = "A2C_RolloutBuffer num_steps num_envs :: 'a a2c_rollout_buffer"
  have inv0: "a2c_buffer_inv num_envs ?b0"
    using assms(1) by (rule a2c_buffer_inv_init)
  have b0: "a2c_step ?b0 = 0" "a2c_num_steps ?b0 = num_steps"
    "length (a2c_states ?b0) = num_steps" "length (a2c_actions ?b0) = num_steps"
    "length (a2c_rewards ?b0) = num_steps" "length (a2c_flags ?b0) = num_steps"
    "length (a2c_values ?b0) = num_steps"
    by (simp_all add: A2C_RolloutBuffer_def zeros2_def)
  from a2c_pushes_cursor [OF inv0 assms(2)] obtain b where
    b: "a2c_pushes ?b0 xs = Inr b" "a2c_buffer_inv num_envs b" "a2c_num_steps b = num_steps"
      "a2c_step b = length xs mod num_steps"
    by (auto simp: b0)
  have cursor: "a2c_step b < a2c_num_steps b"
    using b(2) by (simp add: a2c_buffer_inv_def)
  have one: "a2c_push b (tr_state x) (tr_action x) (tr_reward x) (tr_flag x) (tr_value x) =
           Inr (b\<lparr>a2c_states := (a2c_states b)[a2c_step b := tr_state x],
                  a2c_actions := (a2c_actions b)[a2c_step b := tr_action x],
                  a2c_rewards := (a2c_rewards b)[a2c_step b := tr_reward x],
                  a2c_flags := (a2c_flags b)[a2c_step b := tr_flag x],
                  a2c_values := (a2c_values b)[a2c_step b := tr_value x],
                  a2c_step := (a2c_step b + 1) mod num_steps\<rparr>)"
    if "a2c_transition_shaped num_envs x" for x
    using a2c_push_ok [OF b(2) that] by (simp only: b(3))
  have full: "a2c_step b = 0 \<and>
         a2c_get b = (map tr_state xs, map tr_action xs, map tr_reward xs, map tr_flag xs,
                  map tr_value xs)"
    if len: "length xs = num_steps"
  proof -
    have fit: "a2c_step ?b0 + length xs \<le> a2c_num_steps ?b0"
      using len by (simp add: b0)
    from a2c_pushes_run [OF inv0 assms(2) fit] b(1) len
    show ?thesis by (auto simp: b0 a2c_get_def)
  qed
  from b(1) cursor b(3,4) one full show ?thesis by blast
qed

lemma transition_shaped_a2c:
  "list_all (transition_shaped N) xs \<Longrightarrow> list_all (a2c_transition_shaped N) xs"
  by (simp add: list_all_iff transition_shaped_def a2c_transition_shaped_def)

text \<open>
  Claim C10. For a buffer of \<open>num_steps > 0\<close> rows (the program never builds another
  one: \<open>parse_args\<close> divides by \<open>num_envs * num_steps\<close>) and pushed rows of
  \<open>num_envs\<close> entries, after any number of pushes on a fresh buffer the cursor is
  below \<open>num_steps\<close> and equals the number of pushes modulo \<open>num_steps\<close>; a further
  push writes every field of the transition at the cursor's row, changes no other row
  and advances the cursor by one modulo \<open>num_steps\<close>; after exactly \<open>num_steps\<close>
  pushes the cursor is back at 0 and \<open>get\<close> returns, for every field, exactly the
  pushed rows in push order. The same holds for the buffer of the A2C variant.
\<close>

theorem rollout_buffer_ring:
  assumes "0 < num_steps" "list_all (transition_shaped num_envs) xs"
  shows "(\<exists>b. pushes (RolloutBuffer num_steps num_envs) xs = Inr b \<and>
      rb_step b < rb_num_steps b \<and> rb_num_steps b = num_steps \<and>
      rb_step b = length xs mod num_steps \<and>
      (\<forall>x. transition_shaped num_envs x \<longrightarrow>
         push b (tr_state x) (tr_action x) (tr_reward x) (tr_flag x) (tr_log_prob x) (tr_value x) =
           Inr (b\<lparr>rb_states := (rb_states b)[rb_step b := tr_state x],
                  rb_actions := (rb_actions b)[rb_step b := tr_action x],
                  rb_rewards := (rb_rewards b)[rb_step b := tr_reward x],
                  rb_flags := (rb_flags b)[rb_step b := tr_flag x],
                  rb_log_probs := (rb_log_probs b)[rb_step b := tr_log_prob x],
                  rb_values := (rb_values b)[rb_step b := tr_value x],
                  rb_step := (rb_step b + 1) mod num_steps\<rparr>)) \<and>
      (length xs = num_steps \<longrightarrow>
         rb_step b = 0 \<and>
         get b = (map tr_state xs, map tr_action xs, map tr_reward xs, map tr_flag xs,
                  map tr_log_prob xs, map tr_value xs)))
   \<and> (\<exists>b. a2c_pushes (A2C_RolloutBuffer num_steps num_envs) xs = Inr b \<and>
      a2c_step b < a2c_num_steps b \<and> a2c_num_steps b = num_steps \<and>
      a2c_step b = length xs mod num_steps \<and>
      (\<forall>x. a2c_transition_shaped num_envs x \<longrightarrow>
         a2c_push b (tr_state x) (tr_action x) (tr_reward x) (tr_flag x) (tr_value x) =
           Inr (b\<lparr>a2c_states := (a2c_states b)[a2c_step b := tr_state x],
                  a2c_actions := (a2c_actions b)[a2c_step b := tr_action x],
                  a2c_rewards := (a2c_rewards b)[a2c_step b := tr_reward x],
                  a2c_flags := (a2c_flags b)[a2c_step b := tr_flag x],
                  a2c_values := (a2c_values b)[a2c_step b := tr_value x],
                  a2c_step := (a2c_step b + 1) mod num_steps\<rparr>)) \<and>
      (length xs = num_steps \<longrightarrow>
         a2c_step b = 0 \<and>
         a2c_get b = (map tr_state xs, map tr_action xs, map tr_reward xs, map tr_flag xs,
                  map tr_value xs)))"
  using ppo_buffer_ring [OF assms] a2c_buffer_ring [OF assms(1) transition_shaped_a2c [OF assms(2)]]
  by (rule conjI)

theorem rollout_buffer_ring_witness:
  "(0::nat) < 2 \<and> list_all (transition_shaped 1) [t1, t2] \<and>
   (\<exists>b. pushes (RolloutBuffer 2 1) [t1, t2] = Inr b \<and> rb_step b = 0 \<and>
        get b = ([[7], [8]], [[1], [0]], [[1], [0]], [[1], [0]], [[-1], [-2]], [[2], [3]])) \<and>
   (\<exists>b. a2c_pushes (A2C_RolloutBuffer 2 1) [t1, t2] = Inr b \<and> a2c_step b = 0 \<and>
        a2c_get b = ([[7], [8]], [[1], [0]], [[1], [0]], [[1], [0]], [[2], [3]]))"
proof -
  have a: "(0::nat) < 2" by simp
  have b: "list_all (transition_shaped 1) [t1, t2]"
    by (simp add: transition_shaped_def t1_def t2_def)
  have len: "length [t1, t2] = 2" by simp
  have maps: "map tr_state [t1, t2] = [[7], [8]]" "map tr_action [t1, t2] = [[1], [0]]"
    "map tr_reward [t1, t2] = [[1], [0]]" "map tr_flag [t1, t2] = [[1], [0]]"
    "map tr_log_prob [t1, t2] = [[-1], [-2]]" "map tr_value [t1, t2] = [[2], [3]]"
    by (simp_all add: t1_def t2_def)
  have c: "(\<exists>b. pushes (RolloutBuffer 2 1) [t1, t2] = Inr b \<and> rb_step b = 0 \<and>
        get b = (map tr_state [t1, t2], map tr_action [t1, t2], map tr_reward [t1, t2],
                 map tr_flag [t1, t2], map tr_log_prob [t1, t2], map tr_value [t1, t2])) \<and>
     (\<exists>b. a2c_pushes (A2C_RolloutBuffer 2 1) [t1, t2] = Inr b \<and> a2c_step b = 0 \<and>
        a2c_get b = (map tr_state [t1, t2], map tr_action [t1, t2], map tr_reward [t1, t2],
                 map tr_flag [t1, t2], map tr_value [t1, t2]))"
    using rollout_buffer_ring [OF a b] len by blast
  from a b c [unfolded maps] show ?thesis by blast
qed

section \<open>Properties of the normalisation, the schedule and the diagnostics\<close>

lemma anneal_lr_offset:
  "anneal_lr update num_updates learning_rate =
     lr_spec learning_rate update num_updates + learning_rate / real num_updates"
  by (simp add: anneal_lr_def lr_spec_def Let_def algebra_simps diff_divide_distrib)

text \<open>
  Claim C6 says that the rate set before the rollout of update \<open>update_index\<close> is
  \<open>base_lr * (1 - update_index / num_updates)\<close>. The code subtracts one from the index
  although the index starts at 0, so the rate it sets is higher by
  \<open>base_lr / num_updates\<close> (lemma \<open>anneal_lr_offset\<close>). At the first update of a run with
  \<open>num_updates = 10\<close> and \<open>learning_rate = 3e-4\<close> the code sets \<open>3.3e-4\<close>, above the
  configured rate, where the schedule of the claim gives \<open>3e-4\<close>.
\<close>

theorem anneal_lr_first_update:
  "anneal_lr 0 10 (3 / 10000) = 33 / 100000 \<and> lr_spec (3 / 10000) 0 10 = 3 / 10000"
  by (simp add: anneal_lr_def lr_spec_def Let_def)

lemma clipfrac_is_spec_at_default:
  "clipfrac ratios = clip_fraction_spec 0.2 ratios"
proof -
  have "sum_list (map (\<lambda>r. of_bool (\<bar>r - 1\<bar> > 0.2)) ratios) =
        real (length (filter (\<lambda>r. \<bar>r - 1\<bar> > 0.2) ratios))"
    by (induction ratios) simp_all
  then show ?thesis by (simp add: clipfrac_def clip_fraction_spec_def mean_def)
qed

text \<open>
  Claim C7 says that the reported clip fraction is the fraction of minibatch entries with
  \<open>|ratio - 1| > eps\<close> for the configured \<open>eps\<close>. The code compares with the constant
  \<open>0.2\<close>, whatever \<open>args.eps_clip\<close> is (the clipped surrogate two statements below
  uses \<open>args.eps_clip\<close>), so it agrees with the claim only for \<open>eps = 0.2\<close> (lemma
  \<open>clipfrac_is_spec_at_default\<close>). With \<open>eps_clip = 0.5\<close> and the ratios \<open>[1.3, 1.0]\<close>
  no entry is clipped and the fraction of the claim is 0, and the code reports \<open>0.5\<close>.
\<close>

theorem clipfrac_ignores_eps_clip:
  "clipfrac [1.3, 1] = 1 / 2 \<and> clip_fraction_spec 0.5 [1.3, 1] = 0"
  by (simp add: clipfrac_def clip_fraction_spec_def mean_def)

lemma mean_map_affine:
  "xs \<noteq> [] \<Longrightarrow> mean (map (\<lambda>a. (a - m) / c) xs) = (mean xs - m) / c"
proof -
  assume ne: "xs \<noteq> []"
  have "sum_list (map (\<lambda>a. (a - m) / c) xs) = (sum_list xs - real (length xs) * m) / c"
    by (induction xs) (simp_all add: algebra_simps add_divide_distrib diff_divide_distrib)
  then show ?thesis using ne
    by (simp add: mean_def field_simps)
qed

lemma sum_sq_scaled:
  fixes xs :: vec
  shows "sum_list (map (\<lambda>a. ((a - m) / c)\<^sup>2) xs) = sum_list (map (\<lambda>a. (a - m)\<^sup>2) xs) / c\<^sup>2"
  by (induction xs) (simp_all add: power_divide add_divide_distrib)

lemma sum_sq_nonneg:
  fixes xs :: vec
  shows "0 \<le> sum_list (map (\<lambda>x. (x - k)\<^sup>2) xs)"
  by (rule sum_list_nonneg) auto

lemma mean_map: "mean (map f xs) = sum_list (map f xs) / real (length xs)"
  by (simp add: mean_def)

lemma std_alt: "std xs = sqrt (sum_list (map (\<lambda>x. (x - mean xs)\<^sup>2) xs) / real (length xs))"
  by (simp only: std_def mean_map)

lemma std_nonzero_nonempty: "std xs \<noteq> 0 \<Longrightarrow> xs \<noteq> []"
  by (auto simp: std_alt)

lemma std_nonneg: "0 \<le> std xs"
  by (simp add: std_alt sum_sq_nonneg)

lemma torch_std_nonneg: "0 \<le> torch_std xs"
proof (cases xs)
  case Nil
  then show ?thesis by (simp add: torch_std_def)
next
  case (Cons x xs')
  then have "0 \<le> real (length xs) - 1" by simp
  then show ?thesis
    unfolding torch_std_def by (intro real_sqrt_ge_zero divide_nonneg_nonneg sum_sq_nonneg)
qed

text \<open>Normalising with any positive divisor: the mean becomes 0 and both standard
  deviations are divided by the divisor.\<close>

lemma normalized_stats:
  assumes "xs \<noteq> []" "0 < c"
  defines "ys \<equiv> map (\<lambda>a. (a - mean xs) / c) xs"
  shows "mean ys = 0" "std ys = std xs / c" "torch_std ys = torch_std xs / c"
proof -
  let ?S = "sum_list (map (\<lambda>a. (a - mean xs)\<^sup>2) xs)"
  show m0: "mean ys = 0"
    unfolding ys_def using assms(1) by (simp add: mean_map_affine)
  have "sum_list (map (\<lambda>y. (y - 0)\<^sup>2) ys) = ?S / c\<^sup>2"
    unfolding ys_def by (simp add: comp_def sum_sq_scaled)
  then have sq: "sum_list (map (\<lambda>y. (y - mean ys)\<^sup>2) ys) = ?S / c\<^sup>2"
    by (simp only: m0)
  have len: "length ys = length xs" by (simp add: ys_def)
  have sqrtc: "sqrt (c\<^sup>2) = c" using assms(2) by simp
  have "std ys = sqrt (?S / c\<^sup>2 / real (length xs))"
    by (simp only: std_alt sq len)
  also have "\<dots> = sqrt (?S / real (length xs) / c\<^sup>2)"
    by (simp add: divide_divide_eq_left mult.commute)
  also have "\<dots> = sqrt (?S / real (length xs)) / c"
    by (simp only: real_sqrt_divide [of _ "c\<^sup>2"] sqrtc)
  finally show "std ys = std xs / c" by (simp only: std_alt)
  have "torch_std ys = sqrt (?S / c\<^sup>2 / (real (length xs) - 1))"
    by (simp only: torch_std_def sq len)
  also have "\<dots> = sqrt (?S / (real (length xs) - 1) / c\<^sup>2)"
    by (simp add: divide_divide_eq_left mult.commute)
  also have "\<dots> = sqrt (?S / (real (length xs) - 1)) / c"
    by (simp only: real_sqrt_divide [of _ "c\<^sup>2"] sqrtc)
  finally show "torch_std ys = torch_std xs / c" by (simp only: torch_std_def)
qed

text \<open>The two standard deviations vanish on the same batches.\<close>

lemma sum_sq_short:
  "length xs \<le> 1 \<Longrightarrow> sum_list (map (\<lambda>x. (x - mean xs)\<^sup>2) xs) = 0"
proof (cases xs)
  case Nil
  then show ?thesis by simp
next
  case (Cons x xs')
  assume "length xs \<le> 1"
  with Cons have "xs = [x]" by simp
  then show ?thesis by (simp add: mean_def)
qed

lemma torch_std_nonzero_iff: "torch_std xs \<noteq> 0 \<longleftrightarrow> std xs \<noteq> 0"
proof (cases "length xs \<le> 1")
  case True
  then show ?thesis by (simp add: torch_std_def std_alt sum_sq_short)
next
  case False
  then have "real (length xs) - 1 \<noteq> 0" "xs \<noteq> []" by auto
  then show ?thesis by (simp add: torch_std_def std_alt)
qed

text \<open>
  Claim C5. For a batch of advantages with a non-zero standard deviation \<open>sigma\<close>, the
  normalised advantages have mean 0 and standard deviation \<open>sigma / (sigma + eps)\<close>,
  with \<open>eps = 1e-8\<close> and the population standard deviation in the Flax variants and
  \<open>eps = 1e-7\<close> and the sample standard deviation in the PyTorch variant. The mean and
  the standard deviation are those of the batch itself: \<open>flax_normalize\<close> and
  \<open>pt_normalize\<close> have the advantage table of the current iteration as their only
  argument and return only the normalised table, so nothing is carried to another
  iteration.
\<close>

theorem normalized_advantages_stats:
  assumes "std (concat advantages) \<noteq> 0"
  shows "mean (concat (flax_normalize advantages)) = 0 \<and>
         std (concat (flax_normalize advantages)) =
           std (concat advantages) / (std (concat advantages) + 1 / 10 ^ 8) \<and>
         mean (concat (pt_normalize advantages)) = 0 \<and>
         torch_std (concat (pt_normalize advantages)) =
           torch_std (concat advantages) / (torch_std (concat advantages) + 1 / 10 ^ 7)"
proof -
  let ?xs = "concat advantages"
  have ne: "?xs \<noteq> []" using assms(1) by (rule std_nonzero_nonempty)
  have c1: "0 < std ?xs + 1 / 10 ^ 8"
    using std_nonneg [of ?xs] by (simp add: add_nonneg_pos)
  have c2: "0 < torch_std ?xs + 1 / 10 ^ 7"
    using torch_std_nonneg [of ?xs] by (simp add: add_nonneg_pos)
  have f: "concat (flax_normalize advantages) =
      map (\<lambda>a. (a - mean ?xs) / (std ?xs + 1 / 10 ^ 8)) ?xs"
    by (simp add: flax_normalize_def map_concat)
  have p: "concat (pt_normalize advantages) =
      map (\<lambda>a. (a - mean ?xs) / (torch_std ?xs + 1 / 10 ^ 7)) ?xs"
    by (simp add: pt_normalize_def map_concat)
  show ?thesis
    unfolding f p
    using normalized_stats(1,2) [OF ne c1] normalized_stats(1,3) [OF ne c2]
    by simp
qed


theorem normalized_advantages_stats_witness:
  "std (concat [[1], [3]]) \<noteq> 0 \<and>
   mean (concat (flax_normalize [[1], [3]])) = 0 \<and>
   std (concat (flax_normalize [[1], [3]])) = 1 / (1 + 1 / 10 ^ 8) \<and>
   mean (concat (pt_normalize [[1], [3]])) = 0 \<and>
   torch_std (concat (pt_normalize [[1], [3]])) = sqrt 2 / (sqrt 2 + 1 / 10 ^ 7)"
proof -
  have s: "std (concat [[1], [3]]) = 1" "torch_std (concat [[1], [3]]) = sqrt 2"
    by (simp_all add: std_def torch_std_def mean_def)
  have a: "std (concat [[1], [3]]) \<noteq> 0"
    by (simp only: s)
  show ?thesis
    using a normalized_advantages_stats [OF a] by (simp only: s) simp
qed

section \<open>Properties of the rollout phase\<close>

lemma bind_err_InrD: "bind_err m f = Inr y \<Longrightarrow> \<exists>x. m = Inr x \<and> f x = Inr y"
  by (cases m) simp_all

lemma flax_rollout_step_counter:
  "flax_rollout_step predict env_step num_envs st = Inr st' \<Longrightarrow>
   global_step st' = global_step st + num_envs"
  by (auto simp: flax_rollout_step_def Let_def split: prod.splits dest!: bind_err_InrD)

lemma flax_rollout_counter:
  "flax_rollout predict env_step num_envs num_steps st = Inr st' \<Longrightarrow>
   global_step st' = global_step st + num_steps * num_envs"
proof (induction num_steps arbitrary: st)
  case 0
  then show ?case by simp
next
  case (Suc num_steps)
  from Suc.prems obtain st1 where
    s1: "flax_rollout_step predict env_step num_envs st = Inr st1" and
    r: "flax_rollout predict env_step num_envs num_steps st1 = Inr st'"
    by (auto dest!: bind_err_InrD)
  from Suc.IH [OF r] flax_rollout_step_counter [OF s1] show ?case by simp
qed

lemma a2c_rollout_step_counter:
  "a2c_rollout_step predict env_step num_envs st = Inr st' \<Longrightarrow>
   a2c_global_step st' = a2c_global_step st + num_envs"
  by (auto simp: a2c_rollout_step_def Let_def split: prod.splits dest!: bind_err_InrD)

lemma a2c_rollout_counter:
  "a2c_rollout predict env_step num_envs num_steps st = Inr st' \<Longrightarrow>
   a2c_global_step st' = a2c_global_step st + num_steps * num_envs"
proof (induction num_steps arbitrary: st)
  case 0
  then show ?case by simp
next
  case (Suc num_steps)
  from Suc.prems obtain st1 where
    s1: "a2c_rollout_step predict env_step num_envs st = Inr st1" and
    r: "a2c_rollout predict env_step num_envs num_steps st1 = Inr st'"
    by (auto dest!: bind_err_InrD)
  from Suc.IH [OF r] a2c_rollout_step_counter [OF s1] show ?case by simp
qed

lemma pt_rollout_step_counter:
  "pt_rollout_step get_action_value env_step i st = Inr st' \<Longrightarrow>
   pt_global_step st' = pt_global_step st + 1"
  by (auto simp: pt_rollout_step_def Let_def split: prod.splits dest!: bind_err_InrD)

lemma pt_rollout_from_counter:
  "pt_rollout_from get_action_value env_step is st = Inr st' \<Longrightarrow>
   pt_global_step st' = pt_global_step st + length is"
proof (induction "is" arbitrary: st)
  case Nil
  then show ?case by simp
next
  case (Cons i "is")
  from Cons.prems obtain st1 where
    s1: "pt_rollout_step get_action_value env_step i st = Inr st1" and
    r: "pt_rollout_from get_action_value env_step is st1 = Inr st'"
    by (auto dest!: bind_err_InrD)
  from Cons.IH [OF r] pt_rollout_step_counter [OF s1] show ?case by simp
qed

lemma pt_rollout_counter:
  "pt_rollout get_action_value env_step num_steps st = Inr st' \<Longrightarrow>
   pt_global_step st' = pt_global_step st + num_steps"
  unfolding pt_rollout_def by (drule pt_rollout_from_counter) simp

text \<open>
  Claim C8, as the code has it. In the Flax PPO and A2C variants every environment step
  of the rollout increments the global step counter by \<open>num_envs\<close>, so a completed
  rollout has advanced it by \<open>num_steps * num_envs\<close>. In the PyTorch variant every
  environment step increments the counter by one, so a completed rollout has advanced
  it by \<open>num_steps\<close>; the two agree in its default configuration of one lane. (That
  variant counts vector steps throughout: its \<open>num_updates\<close> is
  \<open>total_timesteps // num_steps\<close>.)
\<close>

theorem global_step_advance:
  "(flax_rollout predict env_step num_envs num_steps st = Inr st' \<longrightarrow>
      global_step st' = global_step st + num_steps * num_envs) \<and>
   (a2c_rollout a2c_predict a2c_env_step num_envs num_steps ast = Inr ast' \<longrightarrow>
      a2c_global_step ast' = a2c_global_step ast + num_steps * num_envs) \<and>
   (pt_rollout get_action_value pt_env_step num_steps pst = Inr pst' \<longrightarrow>
      pt_global_step pst' = pt_global_step pst + num_steps)"
  by (simp add: flax_rollout_counter a2c_rollout_counter pt_rollout_counter)

lemmas ex_rollout_defs =
  ex_predict_def ex_a2c_predict_def ex_env_step_def ex_rollout_state_def
  ex_a2c_rollout_state_def ex_pt_rollout_state_def
  flax_rollout_step_def a2c_rollout_step_def pt_rollout_step_def pt_rollout_def
  push_def a2c_push_def assign_row_def torch_assign_row_def
  RolloutBuffer_def A2C_RolloutBuffer_def zeros2_def zeros_def
  flax_flag_def pt_flag_def bind_err_def Let_def

lemma ex_rollouts_return:
  "\<exists>st'. flax_rollout ex_predict ex_env_step 2 2 ex_rollout_state = Inr st'"
  "\<exists>st'. a2c_rollout ex_a2c_predict ex_env_step 2 2 ex_a2c_rollout_state = Inr st'"
  "\<exists>st'. pt_rollout ex_predict ex_env_step 2 ex_pt_rollout_state = Inr st'"
  by (simp_all add: ex_rollout_defs eval_nat_numeral upt_rec)

theorem global_step_advance_witness:
  "map_sum id global_step (flax_rollout ex_predict ex_env_step 2 2 ex_rollout_state) = Inr 4 \<and>
   map_sum id a2c_global_step
     (a2c_rollout ex_a2c_predict ex_env_step 2 2 ex_a2c_rollout_state) = Inr 4 \<and>
   map_sum id pt_global_step (pt_rollout ex_predict ex_env_step 2 ex_pt_rollout_state) = Inr 2"
proof -
  from ex_rollouts_return obtain st' ast' pst' where
    r: "flax_rollout ex_predict ex_env_step 2 2 ex_rollout_state = Inr st'"
       "a2c_rollout ex_a2c_predict ex_env_step 2 2 ex_a2c_rollout_state = Inr ast'"
       "pt_rollout ex_predict ex_env_step 2 ex_pt_rollout_state = Inr pst'"
    by blast
  have z: "global_step ex_rollout_state = 0" "a2c_global_step ex_a2c_rollout_state = 0"
    "pt_global_step ex_pt_rollout_state = 0"
    by (simp_all add: ex_rollout_state_def ex_a2c_rollout_state_def ex_pt_rollout_state_def)
  from global_step_advance [of ex_predict ex_env_step 2 2 ex_rollout_state st'
      ex_a2c_predict ex_env_step ex_a2c_rollout_state ast' ex_predict ex_env_step
      ex_pt_rollout_state pst'] r
  show ?thesis by (simp add: z)
qed

text \<open>
  Claim C8 as stated fails for the PyTorch variant with more than one lane: with tables
  of two lanes and \<open>num_steps = 2\<close>, the rollout ends with the counter advanced by 2,
  not by \<open>num_steps * num_envs = 4\<close>.
\<close>

theorem global_step_pt_counterexample:
  "well_shaped 2 2 (pt_rewards ex_pt_rollout_state) \<and>
   map_sum id pt_global_step (pt_rollout ex_predict ex_env_step 2 ex_pt_rollout_state) = Inr 2 \<and>
   pt_global_step ex_pt_rollout_state + 2 * 2 \<noteq> 2"
  by (simp add: ex_rollout_defs well_shaped_def eval_nat_numeral upt_rec)

section \<open>Properties of the update step\<close>

lemma fl2_NaN_right [simp]: "fl2 f x NaN = NaN"
  by (cases x) simp_all

lemma foldr_fl2_NaN: "NaN \<in> set xs \<Longrightarrow> foldr (fl2 f) xs a = NaN"
  by (induction xs) auto

lemma fmean_NaN: "NaN \<in> set xs \<Longrightarrow> fmean xs = NaN"
  by (auto simp: fmean_def foldr_fl2_NaN)

lemma map2_fl2_NaN_left:
  "NaN \<in> set xs \<Longrightarrow> length xs \<le> length ys \<Longrightarrow> NaN \<in> set (map2 (fl2 f) xs ys)"
proof (induction xs arbitrary: ys)
  case Nil
  then show ?case by simp
next
  case (Cons x xs)
  then show ?case by (cases ys) auto
qed

text \<open>A NaN advantage makes the loss NaN, when the policy returns one log probability
  for every state of the minibatch.\<close>

lemma loss_fn_NaN:
  assumes "NaN \<in> set advantages"
    and "length advantages \<le> length old_log_probs"
    and "length advantages \<le> length states"
    and "length (fst (policy_evaluate params states actions)) = length states"
  shows "loss_fn policy_evaluate value_coef entropy_coef eps_clip params
           (states, actions, old_log_probs, advantages, td_targets) = NaN"
proof -
  obtain log_probs entropy td_predict where
    pe: "policy_evaluate params states actions = (log_probs, entropy, td_predict)"
    by (cases "policy_evaluate params states actions") auto
  let ?ratios = "map (fl1 exp) (map2 (fl2 (-)) log_probs old_log_probs)"
  let ?surr1 = "map2 (fl2 (*)) advantages ?ratios"
  let ?surr2 = "map2 (fl2 (*)) advantages
        (map (fl1 (\<lambda>r. min (max r (1 - eps_clip)) (1 + eps_clip))) ?ratios)"
  have lr: "length advantages \<le> length ?ratios"
    using assms(2,3,4) by (simp add: pe)
  have s1: "NaN \<in> set ?surr1"
    using assms(1) lr by (rule map2_fl2_NaN_left)
  have "length ?surr1 \<le> length ?surr2" by simp
  with s1 have "NaN \<in> set (map2 (fl2 min) ?surr1 ?surr2)"
    by (rule map2_fl2_NaN_left)
  then have "fmean (map2 (fl2 min) ?surr1 ?surr2) = NaN"
    by (rule fmean_NaN)
  then show ?thesis
    by (simp add: loss_fn_def pe Let_def)
qed

lemma reshape2_ok:
  "length xs = n * m \<Longrightarrow>
   reshape2 n m xs = Inr (map (\<lambda>i. take m (drop (i * m) xs)) [0..<n])"
  by (simp add: reshape2_def)

lemma zip5_map:
  "zip5 (map f1 is) (map f2 is) (map f3 is) (map f4 is) (map f5 is) =
     map (\<lambda>i. (f1 i, f2 i, f3 i, f4 i, f5 i)) is"
  by (induction "is") simp_all

lemma train_loop_result:
  assumes "\<forall>ts g. step_of (apply_gradients ts g) = Suc (step_of ts)"
  shows "\<exists>ts' l'. train_loop policy_evaluate grad apply_gradients params_of value_coef
            entropy_coef eps_clip batches (ts, l) = (ts', l') \<and>
          step_of ts' = step_of ts + length batches \<and>
          (batches = [] \<longrightarrow> l' = l) \<and>
          (batches \<noteq> [] \<longrightarrow>
             (\<exists>params. l' = Some (loss_fn policy_evaluate value_coef entropy_coef eps_clip
                                     params (last batches))))"
proof (induction batches arbitrary: ts l)
  case Nil
  then show ?case by simp
next
  case (Cons batch batches)
  let ?f = "\<lambda>params. loss_fn policy_evaluate value_coef entropy_coef eps_clip params batch"
  let ?ts1 = "apply_gradients ts (grad ?f (params_of ts))"
  from Cons.IH [of ?ts1 "Some (?f (params_of ts))"] obtain ts' l' where
    r: "train_loop policy_evaluate grad apply_gradients params_of value_coef
            entropy_coef eps_clip batches (?ts1, Some (?f (params_of ts))) = (ts', l')"
      "step_of ts' = step_of ?ts1 + length batches"
      "batches = [] \<longrightarrow> l' = Some (?f (params_of ts))"
      "batches \<noteq> [] \<longrightarrow>
             (\<exists>params. l' = Some (loss_fn policy_evaluate value_coef entropy_coef eps_clip
                                     params (last batches)))"
    by blast
  have "step_of ts' = step_of ts + length (batch # batches)"
    using r(2) assms by simp
  moreover have "\<exists>params. l' = Some (loss_fn policy_evaluate value_coef entropy_coef eps_clip
                                     params (last (batch # batches)))"
    using r(3,4) by (cases "batches = []") auto
  ultimately show ?case
    using r(1) by (simp add: Let_def)
qed


text \<open>
  Claim C9, as the code has it. The update has no test for finite values. For a batch
  of \<open>num_minibatches * minibatch_size\<close> entries with at least one minibatch,
  \<open>train_step\<close> returns normally whatever the advantages and the loss are, after
  one optimizer step for every minibatch (an optimizer step advances the step count of
  the train state by one); and when an advantage of the last minibatch is \<open>NaN\<close>, the
  loss it returns is \<open>NaN\<close> (the policy returning one log probability for each state).
  Nothing is raised, skipped or retried.
\<close>

theorem train_step_no_finiteness_check:
  assumes "length states = num_minibatches * minibatch_size"
    and "length actions = num_minibatches * minibatch_size"
    and "length log_probs = num_minibatches * minibatch_size"
    and "length advantages = num_minibatches * minibatch_size"
    and "length td_targets = num_minibatches * minibatch_size"
    and "0 < num_minibatches"
    and "\<forall>ts g. step_of (apply_gradients ts g) = Suc (step_of ts)"
    and "\<forall>params s a. length (fst (policy_evaluate params s a)) = length s"
  shows "\<exists>train_state' loss.
     train_step policy_evaluate grad apply_gradients params_of train_state
       (states, actions, log_probs, advantages, td_targets)
       num_minibatches minibatch_size value_coef entropy_coef eps_clip = Inr (train_state', loss) \<and>
     step_of train_state' = step_of train_state + num_minibatches \<and>
     (NaN \<in> set (drop ((num_minibatches - 1) * minibatch_size) advantages) \<longrightarrow> loss = NaN)"
proof -
  let ?n = num_minibatches and ?m = minibatch_size
  let ?chunk = "\<lambda>xs i. take ?m (drop (i * ?m) xs)"
  let ?batches = "map (\<lambda>i. (?chunk states i, ?chunk actions i, ?chunk log_probs i,
                             ?chunk advantages i, ?chunk td_targets i)) [0..<?n]"
  have ne: "?batches \<noteq> []" using assms(6) by simp
  have len: "length ?batches = ?n" by simp
  have lastb: "last ?batches =
      (?chunk states (?n - 1), ?chunk actions (?n - 1), ?chunk log_probs (?n - 1),
       ?chunk advantages (?n - 1), ?chunk td_targets (?n - 1))"
    using assms(6) by (simp add: last_map last_upt)
  from train_loop_result [OF assms(7), of policy_evaluate grad params_of value_coef
      entropy_coef eps_clip ?batches train_state None]
  obtain ts' l' params where
    r: "train_loop policy_evaluate grad apply_gradients params_of value_coef
            entropy_coef eps_clip ?batches (train_state, None) = (ts', l')"
      "step_of ts' = step_of train_state + ?n"
      "l' = Some (loss_fn policy_evaluate value_coef entropy_coef eps_clip params (last ?batches))"
    using ne len by (metis (no_types, lifting))
  let ?loss = "loss_fn policy_evaluate value_coef entropy_coef eps_clip params (last ?batches)"
  have run: "train_step policy_evaluate grad apply_gradients params_of train_state
       (states, actions, log_probs, advantages, td_targets) ?n ?m value_coef entropy_coef eps_clip
       = Inr (ts', ?loss)"
    by (simp add: train_step_def reshape2_ok assms(1-5) zip5_map bind_err_def r(1,3)
        del: train_loop.simps)
  have nan: "?loss = NaN"
    if n: "NaN \<in> set (drop ((?n - 1) * ?m) advantages)"
  proof -
    have full: "(?n - 1) * ?m + ?m = ?n * ?m"
      using assms(6) by (cases ?n) simp_all
    have lens: "length (?chunk xs (?n - 1)) = ?m" if "length xs = ?n * ?m" for xs :: "'x list"
      using that full by simp
    have "length (drop ((?n - 1) * ?m) advantages) = ?m"
      using assms(4) full by simp
    then have "?chunk advantages (?n - 1) = drop ((?n - 1) * ?m) advantages"
      by simp
    with n have n': "NaN \<in> set (?chunk advantages (?n - 1))" by simp
    show ?thesis
      unfolding lastb
      by (rule loss_fn_NaN [OF n'])
         (simp_all only: lens [OF assms(1)] lens [OF assms(3)] lens [OF assms(4)] assms(8) order_refl)
  qed
  from run r(2) nan show ?thesis by blast
qed


theorem train_step_no_finiteness_check_witness:
  "\<exists>train_state' loss.
     train_step ex_policy_evaluate ex_grad ex_apply_gradients snd (0, Fin 0)
       ([0, 1], [0, 0], [Fin 0, Fin 0], [Fin 1, NaN], [Fin 0, Fin 0]) 2 1 (1/2) (1/100) (1/10)
       = Inr (train_state', loss) \<and>
     fst train_state' = 2 \<and> loss = NaN"
proof -
  have a: "length [0::nat, 1] = 2 * 1" "length [0::int, 0] = 2 * 1"
    "length [Fin 0, Fin 0] = 2 * 1" "length [Fin 1, NaN] = 2 * 1" "(0::nat) < 2"
    by simp_all
  have b: "\<forall>ts g. fst (ex_apply_gradients ts g) = Suc (fst ts)"
    by (simp add: ex_apply_gradients_def)
  have c: "\<forall>params s a. length (fst (ex_policy_evaluate params s a)) = length s"
    by (simp add: ex_policy_evaluate_def)
  have d: "NaN \<in> set (drop ((2 - 1) * 1) [Fin 1, NaN])" by simp
  from train_step_no_finiteness_check [OF a(1,2,3,4,3,5) b c, of ex_grad snd "(0, Fin 0)"
      "1/2" "1/100" "1/10"]
  obtain ts' l where
    r: "train_step ex_policy_evaluate ex_grad ex_apply_gradients snd (0, Fin 0)
       ([0, 1], [0, 0], [Fin 0, Fin 0], [Fin 1, NaN], [Fin 0, Fin 0]) 2 1 (1/2) (1/100) (1/10)
       = Inr (ts', l)"
      "fst ts' = fst (0::nat, Fin 0) + 2"
      "NaN \<in> set (drop ((2 - 1) * 1) [Fin 1, NaN]) \<longrightarrow> l = NaN"
    by blast
  from r(3) d have "l = NaN" by (rule mp)
  moreover from r(2) have "fst ts' = 2" by simp
  ultimately show ?thesis using r(1) by blast
qed

text \<open>
  Claim C9 as stated fails: with a single minibatch whose only advantage is \<open>NaN\<close>,
  \<open>train_step\<close> raises nothing; it returns the train state after one optimizer step,
  with the weight now \<open>NaN\<close>, and the loss \<open>NaN\<close>.
\<close>

theorem nan_advantage_is_applied:
  "train_step ex_policy_evaluate ex_grad ex_apply_gradients snd (0, Fin 0)
     ([0], [0], [Fin 0], [NaN], [Fin 0]) 1 1 (1/2) (1/100) (1/10) = Inr ((1, NaN), NaN)"
  by (simp add: train_step_def reshape2_def loss_fn_def fmean_def ex_policy_evaluate_def
      ex_grad_def ex_apply_gradients_def Let_def)

end
